theory Spec2Isabelle
  imports Complex_Main "HOL-Library.Sublist"
begin

section \<open>Exceptions and configuration\<close>

text \<open>
  Modelled from the spec: \<open>TypeAssertionError\<close>, declared in exceptions.py, which is not
  among the sources. The specification makes the default error class a dedicated
  assertion-failure type, a subtype of the generic assertion error, and the package's
  tests assert that it derives from \<open>AssertionError\<close>. The other classes are Python's
  own; a class supplied by the host program is \<open>UserError name base\<close>, with its base class.
\<close>

datatype exc_class =
    Exception
  | AssertionError
  | TypeAssertionError
  | ValueError
  | TypeError
  | OSError
  | UserError string exc_class

text \<open>\<open>issubclass c d\<close>: walking up from \<open>c\<close> reaches \<open>d\<close>.\<close>

fun issubclass :: "exc_class \<Rightarrow> exc_class \<Rightarrow> bool" where
  "issubclass (UserError n b) d = (d = UserError n b \<or> issubclass b d)"
| "issubclass TypeAssertionError d = (d = TypeAssertionError \<or> d = AssertionError \<or> d = Exception)"
| "issubclass AssertionError d = (d = AssertionError \<or> d = Exception)"
| "issubclass ValueError d = (d = ValueError \<or> d = Exception)"
| "issubclass TypeError d = (d = TypeError \<or> d = Exception)"
| "issubclass OSError d = (d = OSError \<or> d = Exception)"
| "issubclass Exception d = (d = Exception)"

text \<open>A raised exception: the class instantiated at the raise site and its message.\<close>

datatype pyerror = Raised exc_class string

fun exc_isinstance :: "pyerror \<Rightarrow> exc_class \<Rightarrow> bool" where
  "exc_isinstance (Raised c m) d = issubclass c d"

text \<open>
  \<open>ValidationConfig\<close> (validation\_config.py): four fields, defaults as in \<open>__init__\<close>.
  The module-level functions of assertions.py run on an engine created with these
  defaults.
\<close>

record ValidationConfig =
  strict_mode :: bool
  auto_extract_names :: bool
  raise_on_failure :: bool
  custom_error_class :: exc_class

definition default_config :: ValidationConfig where
  "default_config =
     \<lparr>strict_mode = True, auto_extract_names = True, raise_on_failure = True,
      custom_error_class = TypeAssertionError\<rparr>"

section \<open>Values and types\<close>

text \<open>
  Floats are the extended rationals with NaN: Python compares an int with a float exactly,
  so the order on finite floats is the order of the rationals they denote.
\<close>

datatype pyfloat = NaN | NegInf | Fin rat | PosInf

text \<open>
  Runtime values. Strings are lists of 8-bit characters (Latin-1 code points), a dict is
  an association list with string keys, a path object carries its textual form, and
  \<open>VInstance m c\<close> is an instance of a host class \<open>c\<close> of module \<open>m\<close> that derives
  from \<open>object\<close>.
\<close>

datatype pyval =
    VNone
  | VBool bool
  | VInt int
  | VFloat pyfloat
  | VStr string
  | VBytes string
  | VList "pyval list"
  | VTuple "pyval list"
  | VDict "(string \<times> pyval) list"
  | VPath string
  | VInstance string string

datatype pytype =
    TObject | TNoneType | TBool | TInt | TFloat | TStr | TBytes | TList | TTuple | TDict
  | TPath | TPosixPath | TClass string string

text \<open>\<open>type(value)\<close> and \<open>cls.__name__\<close>; a path object is a \<open>PosixPath\<close>.\<close>

fun type_of :: "pyval \<Rightarrow> pytype" where
  "type_of VNone = TNoneType"
| "type_of (VBool b) = TBool"
| "type_of (VInt i) = TInt"
| "type_of (VFloat f) = TFloat"
| "type_of (VStr s) = TStr"
| "type_of (VBytes s) = TBytes"
| "type_of (VList xs) = TList"
| "type_of (VTuple xs) = TTuple"
| "type_of (VDict kvs) = TDict"
| "type_of (VPath p) = TPosixPath"
| "type_of (VInstance m c) = TClass m c"

fun type_name :: "pytype \<Rightarrow> string" where
  "type_name TObject = ''object''"
| "type_name TNoneType = ''NoneType''"
| "type_name TBool = ''bool''"
| "type_name TInt = ''int''"
| "type_name TFloat = ''float''"
| "type_name TStr = ''str''"
| "type_name TBytes = ''bytes''"
| "type_name TList = ''list''"
| "type_name TTuple = ''tuple''"
| "type_name TDict = ''dict''"
| "type_name TPath = ''Path''"
| "type_name TPosixPath = ''PosixPath''"
| "type_name (TClass m c) = c"

text \<open>
  \<open>isinstance(value, t)\<close> for one class: the value's own class, a base of it
  (\<open>bool\<close> derives from \<open>int\<close>, \<open>PosixPath\<close> from \<open>Path\<close>), or \<open>object\<close>.
\<close>

fun subtype_of :: "pytype \<Rightarrow> pytype \<Rightarrow> bool" where
  "subtype_of s TObject = True"
| "subtype_of TBool TInt = True"
| "subtype_of TPosixPath TPath = True"
| "subtype_of s t = (s = t)"

definition py_isinstance :: "pyval \<Rightarrow> pytype \<Rightarrow> bool" where
  "py_isinstance v t = subtype_of (type_of v) t"

text \<open>
  The \<open>expected_type\<close> argument: one class, a list of classes, or a tuple of classes
  (the engine's composite assertions pass tuples).
\<close>

datatype expected = OneType pytype | TypeList "pytype list" | TypeTuple "pytype list"

section \<open>Text rendering\<close>

text \<open>Python's \<open>str\<close> of an int, \<open>repr\<close> of a str or bytes, and of a list of strs.\<close>

definition quoted :: "string \<Rightarrow> string" where
  "quoted s = CHR 0x27 # s @ [CHR 0x27]"

definition digit_char :: "nat \<Rightarrow> char" where
  "digit_char n = ''0123456789abcdef'' ! (n mod 16)"

fun nat_str :: "nat \<Rightarrow> string" where
  "nat_str n = (if n < 10 then [digit_char n] else nat_str (n div 10) @ [digit_char (n mod 10)])"

declare nat_str.simps [simp del]

definition int_str :: "int \<Rightarrow> string" where
  "int_str i = (if i < 0 then CHR ''-'' # nat_str (nat (- i)) else nat_str (nat i))"

definition hex2 :: "nat \<Rightarrow> string" where
  "hex2 n = [digit_char (n div 16), digit_char (n mod 16)]"

definition str_printable :: "char \<Rightarrow> bool" where
  "str_printable c = (let n = (of_char c :: nat) in (32 \<le> n \<and> n \<le> 126) \<or> (161 \<le> n \<and> n \<noteq> 173))"

definition bytes_printable :: "char \<Rightarrow> bool" where
  "bytes_printable c = (let n = (of_char c :: nat) in 32 \<le> n \<and> n \<le> 126)"

definition escape_char :: "(char \<Rightarrow> bool) \<Rightarrow> char \<Rightarrow> char \<Rightarrow> string" where
  "escape_char printable q c =
     (if c = q \<or> c = CHR 0x5C then [CHR 0x5C, c]
      else if c = CHR 0x09 then [CHR 0x5C, CHR ''t'']
      else if c = CHR 0x0A then [CHR 0x5C, CHR ''n'']
      else if c = CHR 0x0D then [CHR 0x5C, CHR ''r'']
      else if printable c then [c]
      else [CHR 0x5C, CHR ''x''] @ hex2 (of_char c))"

definition quote_for :: "string \<Rightarrow> char" where
  "quote_for s = (if CHR 0x27 \<in> set s \<and> CHR 0x22 \<notin> set s then CHR 0x22 else CHR 0x27)"

definition py_repr_str :: "string \<Rightarrow> string" where
  "py_repr_str s = (let q = quote_for s in q # concat (map (escape_char str_printable q) s) @ [q])"

definition py_repr_bytes :: "string \<Rightarrow> string" where
  "py_repr_bytes s =
     (let q = quote_for s in CHR ''b'' # q # concat (map (escape_char bytes_printable q) s) @ [q])"

fun join :: "string \<Rightarrow> string list \<Rightarrow> string" where
  "join sep [] = []"
| "join sep [x] = x"
| "join sep (x # y # ys) = x @ sep @ join sep (y # ys)"

definition py_repr_str_list :: "string list \<Rightarrow> string" where
  "py_repr_str_list xs = ''['' @ join '', '' (map py_repr_str xs) @ '']''"

text \<open>\<open>repr\<close> of a class, and \<open>str\<close> of a tuple of classes.\<close>

fun class_qualname :: "pytype \<Rightarrow> string" where
  "class_qualname TPath = ''pathlib.Path''"
| "class_qualname TPosixPath = ''pathlib.PosixPath''"
| "class_qualname (TClass m c) = m @ ''.'' @ c"
| "class_qualname t = type_name t"

definition class_repr :: "pytype \<Rightarrow> string" where
  "class_repr t = ''<class '' @ quoted (class_qualname t) @ ''>''"

fun py_str_class_tuple :: "pytype list \<Rightarrow> string" where
  "py_str_class_tuple [t] = ''('' @ class_repr t @ '',)''"
| "py_str_class_tuple ts = ''('' @ join '', '' (map class_repr ts) @ '')''"

text \<open>
  What the embedding takes from the platform: the text of a finite float, the textual
  form pathlib gives the path built from a string, the text of the \<open>TypeError\<close> that
  \<open>Path(value)\<close> raises on a value it does not accept, the parent of a path, and the
  outcome of \<open>mkdir(parents=True, exist_ok=True)\<close> on a file system (the text of the
  \<open>OSError\<close> if it raises one, and the file system afterwards). What is at a path is a
  file, a directory or something else.
\<close>

datatype fskind = File | Dir | Other

type_synonym filesystem = "string \<Rightarrow> fskind option"

record platform =
  fin_str :: "rat \<Rightarrow> string"
  path_text :: "string \<Rightarrow> string"
  path_type_error :: "pyval \<Rightarrow> string"
  path_parent :: "string \<Rightarrow> string"
  mkdir_parents :: "filesystem \<Rightarrow> string \<Rightarrow> string option \<times> filesystem"

fun float_str :: "platform \<Rightarrow> pyfloat \<Rightarrow> string" where
  "float_str pf NaN = ''nan''"
| "float_str pf NegInf = ''-inf''"
| "float_str pf PosInf = ''inf''"
| "float_str pf (Fin q) = fin_str pf q"

section \<open>Validators (validators.py)\<close>

subsection \<open>TypeValidator\<close>

fun type_validate :: "pyval \<Rightarrow> expected option \<Rightarrow> pyerror + bool" where
  "type_validate v None = Inl (Raised ValueError ''expected_type must be provided'')"
| "type_validate v (Some (TypeList ts)) = Inr (list_ex (py_isinstance v) ts)"
| "type_validate v (Some (OneType t)) = Inr (py_isinstance v t)"
| "type_validate v (Some (TypeTuple ts)) = Inr (list_ex (py_isinstance v) ts)"

fun type_get_error_message :: "pyval \<Rightarrow> string \<Rightarrow> expected option \<Rightarrow> pyerror + string" where
  "type_get_error_message v var_name None =
     Inl (Raised ValueError ''expected_type must be provided'')"
| "type_get_error_message v var_name (Some (TypeList ts)) =
     Inr (quoted var_name @ '' must be one of types '' @ py_repr_str_list (map type_name ts)
          @ '', but got '' @ quoted (type_name (type_of v)))"
| "type_get_error_message v var_name (Some (OneType t)) =
     Inr (quoted var_name @ '' must be of type '' @ quoted (type_name t)
          @ '', but got '' @ quoted (type_name (type_of v)))"
| "type_get_error_message v var_name (Some (TypeTuple ts)) =
     Inr (quoted var_name @ '' must be of type '' @ quoted (py_str_class_tuple ts)
          @ '', but got '' @ quoted (type_name (type_of v)))"

subsection \<open>RangeValidator\<close>

text \<open>
  The bounds are ints or floats. A bool value compares as the int it is; a value of any
  other class makes \<open><\<close> and \<open>>\<close> raise \<open>TypeError\<close>. Every comparison with NaN is false.
\<close>

datatype pynum = NumInt int | NumFloat pyfloat

fun num_of :: "pyval \<Rightarrow> pynum option" where
  "num_of (VBool b) = Some (NumInt (if b then 1 else 0))"
| "num_of (VInt i) = Some (NumInt i)"
| "num_of (VFloat f) = Some (NumFloat f)"
| "num_of v = None"

fun num_key :: "pynum \<Rightarrow> (int \<times> rat) option" where
  "num_key (NumInt i) = Some (0, of_int i)"
| "num_key (NumFloat NaN) = None"
| "num_key (NumFloat NegInf) = Some (- 1, 0)"
| "num_key (NumFloat (Fin q)) = Some (0, q)"
| "num_key (NumFloat PosInf) = Some (1, 0)"

definition num_lt :: "pynum \<Rightarrow> pynum \<Rightarrow> bool" where
  "num_lt a b =
     (case (num_key a, num_key b) of
        (Some (r, x), Some (s, y)) \<Rightarrow> r < s \<or> (r = s \<and> x < y)
      | _ \<Rightarrow> False)"

fun num_type_name :: "pynum \<Rightarrow> string" where
  "num_type_name (NumInt i) = ''int''"
| "num_type_name (NumFloat f) = ''float''"

fun num_str :: "platform \<Rightarrow> pynum \<Rightarrow> string" where
  "num_str pf (NumInt i) = int_str i"
| "num_str pf (NumFloat f) = float_str pf f"

definition unorderable :: "string \<Rightarrow> pyval \<Rightarrow> pynum \<Rightarrow> pyerror" where
  "unorderable opr v b =
     Raised TypeError (quoted opr @ '' not supported between instances of ''
       @ quoted (type_name (type_of v)) @ '' and '' @ quoted (num_type_name b))"

text \<open>\<open>value < bound\<close> and \<open>value > bound\<close>.\<close>

definition py_less :: "pyval \<Rightarrow> pynum \<Rightarrow> pyerror + bool" where
  "py_less v b = (case num_of v of None \<Rightarrow> Inl (unorderable ''<'' v b) | Some n \<Rightarrow> Inr (num_lt n b))"

definition py_greater :: "pyval \<Rightarrow> pynum \<Rightarrow> pyerror + bool" where
  "py_greater v b = (case num_of v of None \<Rightarrow> Inl (unorderable ''>'' v b) | Some n \<Rightarrow> Inr (num_lt b n))"

definition below_min :: "pyval \<Rightarrow> pynum option \<Rightarrow> pyerror + bool" where
  "below_min v min_val = (case min_val of None \<Rightarrow> Inr False | Some lo \<Rightarrow> py_less v lo)"

definition above_max :: "pyval \<Rightarrow> pynum option \<Rightarrow> pyerror + bool" where
  "above_max v max_val = (case max_val of None \<Rightarrow> Inr False | Some hi \<Rightarrow> py_greater v hi)"

definition range_validate :: "pyval \<Rightarrow> pynum option \<Rightarrow> pynum option \<Rightarrow> pyerror + bool" where
  "range_validate v min_val max_val =
     (case below_min v min_val of
        Inl e \<Rightarrow> Inl e
      | Inr True \<Rightarrow> Inr False
      | Inr False \<Rightarrow>
          (case above_max v max_val of
             Inl e \<Rightarrow> Inl e
           | Inr True \<Rightarrow> Inr False
           | Inr False \<Rightarrow> Inr True))"

text \<open>\<open>str(value)\<close> of a value that has been compared, hence is a number.\<close>

fun value_str :: "platform \<Rightarrow> pyval \<Rightarrow> string" where
  "value_str pf (VBool b) = (if b then ''True'' else ''False'')"
| "value_str pf (VInt i) = int_str i"
| "value_str pf (VFloat f) = float_str pf f"

definition range_get_error_message ::
  "platform \<Rightarrow> pyval \<Rightarrow> string \<Rightarrow> pynum option \<Rightarrow> pynum option \<Rightarrow> pyerror + string" where
  "range_get_error_message pf v var_name min_val max_val =
     (case below_min v min_val of
        Inl e \<Rightarrow> Inl e
      | Inr True \<Rightarrow>
          Inr (quoted var_name @ '' must be >= ''
               @ (case min_val of Some lo \<Rightarrow> num_str pf lo | None \<Rightarrow> ''None'')
               @ '', but got '' @ value_str pf v)
      | Inr False \<Rightarrow>
          (case above_max v max_val of
             Inl e \<Rightarrow> Inl e
           | Inr True \<Rightarrow>
               Inr (quoted var_name @ '' must be <= ''
                    @ (case max_val of Some hi \<Rightarrow> num_str pf hi | None \<Rightarrow> ''None'')
                    @ '', but got '' @ value_str pf v)
           | Inr False \<Rightarrow> Inr (quoted var_name @ '' is out of valid range'')))"

subsection \<open>LengthValidator\<close>

text \<open>\<open>len(value)\<close>; \<open>None\<close> where Python raises \<open>TypeError\<close> (the value has no length).\<close>

fun py_len :: "pyval \<Rightarrow> nat option" where
  "py_len (VStr s) = Some (length s)"
| "py_len (VBytes s) = Some (length s)"
| "py_len (VList xs) = Some (length xs)"
| "py_len (VTuple xs) = Some (length xs)"
| "py_len (VDict kvs) = Some (length (remdups (map fst kvs)))"
| "py_len v = None"

definition differs :: "nat \<Rightarrow> int option \<Rightarrow> bool" where
  "differs val_len exact_len = (case exact_len of None \<Rightarrow> False | Some k \<Rightarrow> int val_len \<noteq> k)"

definition shorter :: "nat \<Rightarrow> int option \<Rightarrow> bool" where
  "shorter val_len min_len = (case min_len of None \<Rightarrow> False | Some m \<Rightarrow> int val_len < m)"

definition longer :: "nat \<Rightarrow> int option \<Rightarrow> bool" where
  "longer val_len max_len = (case max_len of None \<Rightarrow> False | Some m \<Rightarrow> int val_len > m)"

definition length_validate :: "pyval \<Rightarrow> int option \<Rightarrow> int option \<Rightarrow> int option \<Rightarrow> bool" where
  "length_validate v min_len max_len exact_len =
     (case py_len v of
        None \<Rightarrow> False
      | Some val_len \<Rightarrow>
          if differs val_len exact_len then False
          else if shorter val_len min_len then False
          else if longer val_len max_len then False
          else True)"

definition opt_int_str :: "int option \<Rightarrow> string" where
  "opt_int_str k = (case k of None \<Rightarrow> ''None'' | Some i \<Rightarrow> int_str i)"

definition length_get_error_message ::
  "pyval \<Rightarrow> string \<Rightarrow> int option \<Rightarrow> int option \<Rightarrow> int option \<Rightarrow> string" where
  "length_get_error_message v var_name min_len max_len exact_len =
     (case py_len v of
        None \<Rightarrow> quoted var_name @ '' must have a length, but got '' @ type_name (type_of v)
      | Some val_len \<Rightarrow>
          if differs val_len exact_len then
            quoted var_name @ '' must have length = '' @ opt_int_str exact_len
              @ '', but got '' @ nat_str val_len
          else if shorter val_len min_len then
            quoted var_name @ '' must have length >= '' @ opt_int_str min_len
              @ '', but got '' @ nat_str val_len
          else if longer val_len max_len then
            quoted var_name @ '' must have length <= '' @ opt_int_str max_len
              @ '', but got '' @ nat_str val_len
          else quoted var_name @ '' has invalid length'')"

subsection \<open>PathValidator\<close>

text \<open>
  A file system maps the textual form of a path to what is there. \<open>str.strip()\<close> removes
  the characters for which \<open>str.isspace\<close> holds.
\<close>

definition path_exists :: "filesystem \<Rightarrow> string \<Rightarrow> bool" where
  "path_exists fs p = (fs p \<noteq> None)"

definition is_file :: "filesystem \<Rightarrow> string \<Rightarrow> bool" where
  "is_file fs p = (fs p = Some File)"

definition is_dir :: "filesystem \<Rightarrow> string \<Rightarrow> bool" where
  "is_dir fs p = (fs p = Some Dir)"

definition py_isspace :: "char \<Rightarrow> bool" where
  "py_isspace c =
     (let n = (of_char c :: nat)
      in (9 \<le> n \<and> n \<le> 13) \<or> (28 \<le> n \<and> n \<le> 32) \<or> n = 133 \<or> n = 160)"

text \<open>
  \<open>isinstance(value, (str, bytes)) and
  len(value.strip() if isinstance(value, str) else value) == 0\<close>
\<close>

fun empty_text :: "pyval \<Rightarrow> bool" where
  "empty_text (VStr s) = list_all py_isspace s"
| "empty_text (VBytes s) = (s = [])"
| "empty_text v = False"

text \<open>
  The conversion at the head of \<open>PathValidator.validate\<close>; \<open>None\<close> where \<open>validate\<close>
  returns \<open>False\<close> (empty text, or \<open>Path(value)\<close> raising \<open>TypeError\<close>).
\<close>

fun validate_path_obj :: "platform \<Rightarrow> pyval \<Rightarrow> string option" where
  "validate_path_obj pf (VPath p) = Some p"
| "validate_path_obj pf (VStr s) = (if empty_text (VStr s) then None else Some (path_text pf s))"
| "validate_path_obj pf (VBytes s) =
     (if empty_text (VBytes s) then None else Some (path_text pf (py_repr_bytes s)))"
| "validate_path_obj pf v = None"

definition path_validate ::
  "platform \<Rightarrow> filesystem \<Rightarrow> pyval \<Rightarrow> bool option \<Rightarrow> bool \<Rightarrow> bool \<Rightarrow> bool" where
  "path_validate pf fs v must_exist must_be_file must_be_dir =
     (case validate_path_obj pf v of
        None \<Rightarrow> False
      | Some p \<Rightarrow>
          if must_exist = Some True \<and> \<not> path_exists fs p then False
          else if must_exist = Some False \<and> path_exists fs p then False
          else if must_be_file \<and> (\<not> path_exists fs p \<or> \<not> is_file fs p) then False
          else if must_be_dir \<and> (\<not> path_exists fs p \<or> \<not> is_dir fs p) then False
          else True)"

text \<open>
  The conversion at the head of \<open>PathValidator.get_error_message\<close>: here \<open>Path(value)\<close>
  is applied to everything but a path object, and accepts a str only.
\<close>

fun message_path_obj :: "platform \<Rightarrow> pyval \<Rightarrow> string + string" where
  "message_path_obj pf (VPath p) = Inr p"
| "message_path_obj pf (VStr s) = Inr (path_text pf s)"
| "message_path_obj pf v = Inl (path_type_error pf v)"

definition path_get_error_message ::
  "platform \<Rightarrow> filesystem \<Rightarrow> pyval \<Rightarrow> string \<Rightarrow> bool option \<Rightarrow> bool \<Rightarrow> bool \<Rightarrow> string" where
  "path_get_error_message pf fs v var_name must_exist must_be_file must_be_dir =
     (case message_path_obj pf v of
        Inl e \<Rightarrow> quoted var_name @ '' cannot be converted to a Path: '' @ e
      | Inr p \<Rightarrow>
          if empty_text v then quoted var_name @ '' cannot be an empty path''
          else if must_exist = Some True \<and> \<not> path_exists fs p then
            quoted var_name @ '' path must exist, but '' @ quoted p @ '' does not exist''
          else if must_exist = Some False \<and> path_exists fs p then
            quoted var_name @ '' path must not exist, but '' @ quoted p @ '' already exists''
          else if must_be_file \<and> \<not> path_exists fs p then
            quoted var_name @ '' must be an existing file, but '' @ quoted p @ '' does not exist''
          else if must_be_file \<and> \<not> is_file fs p then
            quoted var_name @ '' must be a file, but '' @ quoted p @ '' is not a file''
          else if must_be_dir \<and> \<not> path_exists fs p then
            quoted var_name @ '' must be an existing directory, but '' @ quoted p
              @ '' does not exist''
          else if must_be_dir \<and> \<not> is_dir fs p then
            quoted var_name @ '' must be a directory, but '' @ quoted p @ '' is not a directory''
          else quoted var_name @ '' path validation failed'')"

section \<open>The engine (type\_validation\_engine.py)\<close>

text \<open>
  The registry: a validator kind together with the keyword arguments that validator
  reads.
\<close>

datatype constraint =
    TypeCheck "expected option"
  | RangeCheck "pynum option" "pynum option"
  | LengthCheck "int option" "int option" "int option"
  | PathCheck "bool option" bool bool

fun validate :: "platform \<Rightarrow> filesystem \<Rightarrow> constraint \<Rightarrow> pyval \<Rightarrow> pyerror + bool" where
  "validate pf fs (TypeCheck expected_type) v = type_validate v expected_type"
| "validate pf fs (RangeCheck min_val max_val) v = range_validate v min_val max_val"
| "validate pf fs (LengthCheck min_len max_len exact_len) v =
     Inr (length_validate v min_len max_len exact_len)"
| "validate pf fs (PathCheck must_exist must_be_file must_be_dir) v =
     Inr (path_validate pf fs v must_exist must_be_file must_be_dir)"

fun get_error_message ::
  "platform \<Rightarrow> filesystem \<Rightarrow> constraint \<Rightarrow> pyval \<Rightarrow> string \<Rightarrow> pyerror + string" where
  "get_error_message pf fs (TypeCheck expected_type) v var_name =
     type_get_error_message v var_name expected_type"
| "get_error_message pf fs (RangeCheck min_val max_val) v var_name =
     range_get_error_message pf v var_name min_val max_val"
| "get_error_message pf fs (LengthCheck min_len max_len exact_len) v var_name =
     Inr (length_get_error_message v var_name min_len max_len exact_len)"
| "get_error_message pf fs (PathCheck must_exist must_be_file must_be_dir) v var_name =
     Inr (path_get_error_message pf fs v var_name must_exist must_be_file must_be_dir)"

text \<open>
  The engine's methods read one attribute of the engine, \<open>self.config\<close>; they take it as
  their first argument. \<open>site\<close> is the name the extractor recovers from the caller's source
  line.
\<close>

definition get_variable_name :: "ValidationConfig \<Rightarrow> string \<Rightarrow> string" where
  "get_variable_name cfg site = (if \<not> auto_extract_names cfg then ''value'' else site)"

text \<open>\<open>custom_msg or generated\<close>: the generated text is computed only when it is used.\<close>

definition msg_or :: "string option \<Rightarrow> (pyerror + string) \<Rightarrow> pyerror + string" where
  "msg_or custom_msg generated =
     (case custom_msg of
        None \<Rightarrow> generated
      | Some m \<Rightarrow> if m = [] then generated else Inr m)"

definition validate_with_engine ::
  "ValidationConfig \<Rightarrow> platform \<Rightarrow> filesystem \<Rightarrow> string \<Rightarrow> constraint \<Rightarrow> pyval
     \<Rightarrow> string option \<Rightarrow> pyerror + bool" where
  "validate_with_engine cfg pf fs site c v custom_msg =
     (case validate pf fs c v of
        Inl e \<Rightarrow> Inl e
      | Inr is_valid \<Rightarrow>
          if \<not> is_valid \<and> raise_on_failure cfg then
            (case msg_or custom_msg (get_error_message pf fs c v (get_variable_name cfg site)) of
               Inl e \<Rightarrow> Inl e
             | Inr error_msg \<Rightarrow> Inl (Raised (custom_error_class cfg) error_msg))
          else Inr is_valid)"

definition assert_with_engine ::
  "ValidationConfig \<Rightarrow> platform \<Rightarrow> filesystem \<Rightarrow> string \<Rightarrow> constraint \<Rightarrow> pyval
     \<Rightarrow> string option \<Rightarrow> pyerror + pyval" where
  "assert_with_engine cfg pf fs site c v custom_msg =
     (case validate_with_engine cfg pf fs site c v custom_msg of
        Inl e \<Rightarrow> Inl e
      | Inr is_valid \<Rightarrow> Inr v)"

definition is_type :: "pyval \<Rightarrow> pytype \<Rightarrow> bool" where
  "is_type v expected_type = py_isinstance v expected_type"

definition is_not_none :: "pyval \<Rightarrow> bool" where
  "is_not_none v = (v \<noteq> VNone)"

definition assert_type ::
  "ValidationConfig \<Rightarrow> platform \<Rightarrow> filesystem \<Rightarrow> string \<Rightarrow> pyval \<Rightarrow> expected option
     \<Rightarrow> string option \<Rightarrow> pyerror + pyval" where
  "assert_type cfg pf fs site v expected_type msg =
     assert_with_engine cfg pf fs site (TypeCheck expected_type) v msg"

definition text_or :: "string option \<Rightarrow> string \<Rightarrow> string" where
  "text_or msg generated = (case msg of None \<Rightarrow> generated | Some m \<Rightarrow> if m = [] then generated else m)"

definition assert_not_none ::
  "ValidationConfig \<Rightarrow> string \<Rightarrow> pyval \<Rightarrow> string option \<Rightarrow> pyerror + pyval" where
  "assert_not_none cfg site v msg =
     (if v = VNone then
        Inl (Raised (custom_error_class cfg)
               (text_or msg (quoted (get_variable_name cfg site) @ '' must not be None'')))
      else Inr v)"

definition assert_numeric ::
  "ValidationConfig \<Rightarrow> platform \<Rightarrow> filesystem \<Rightarrow> string \<Rightarrow> pyval \<Rightarrow> pynum option \<Rightarrow> pynum option
     \<Rightarrow> string option \<Rightarrow> pyerror + pyval" where
  "assert_numeric cfg pf fs site v min_val max_val msg =
     (case assert_with_engine cfg pf fs site (TypeCheck (Some (TypeTuple [TInt, TFloat]))) v msg of
        Inl e \<Rightarrow> Inl e
      | Inr u \<Rightarrow>
          if min_val \<noteq> None \<or> max_val \<noteq> None then
            (case validate_with_engine cfg pf fs site (RangeCheck min_val max_val) v msg of
               Inl e \<Rightarrow> Inl e
             | Inr is_valid \<Rightarrow> Inr v)
          else Inr v)"

definition assert_string_like ::
  "ValidationConfig \<Rightarrow> platform \<Rightarrow> filesystem \<Rightarrow> string \<Rightarrow> pyval \<Rightarrow> int option \<Rightarrow> int option
     \<Rightarrow> string option \<Rightarrow> pyerror + pyval" where
  "assert_string_like cfg pf fs site v min_len max_len msg =
     (case assert_with_engine cfg pf fs site (TypeCheck (Some (TypeTuple [TStr, TBytes]))) v msg of
        Inl e \<Rightarrow> Inl e
      | Inr u \<Rightarrow>
          if min_len \<noteq> None \<or> max_len \<noteq> None then
            (case validate_with_engine cfg pf fs site (LengthCheck min_len max_len None) v msg of
               Inl e \<Rightarrow> Inl e
             | Inr is_valid \<Rightarrow> Inr v)
          else Inr v)"

definition assert_sequence ::
  "ValidationConfig \<Rightarrow> platform \<Rightarrow> filesystem \<Rightarrow> string \<Rightarrow> pyval \<Rightarrow> int option \<Rightarrow> int option
     \<Rightarrow> int option \<Rightarrow> string option \<Rightarrow> pyerror + pyval" where
  "assert_sequence cfg pf fs site v min_len max_len exact_len msg =
     (case assert_with_engine cfg pf fs site (TypeCheck (Some (TypeTuple [TList, TTuple]))) v msg of
        Inl e \<Rightarrow> Inl e
      | Inr u \<Rightarrow>
          if min_len \<noteq> None \<or> max_len \<noteq> None \<or> exact_len \<noteq> None then
            (case validate_with_engine cfg pf fs site (LengthCheck min_len max_len exact_len) v msg of
               Inl e \<Rightarrow> Inl e
             | Inr is_valid \<Rightarrow> Inr v)
          else Inr v)"

definition assert_range ::
  "ValidationConfig \<Rightarrow> platform \<Rightarrow> filesystem \<Rightarrow> string \<Rightarrow> pyval \<Rightarrow> pynum option \<Rightarrow> pynum option
     \<Rightarrow> string option \<Rightarrow> pyerror + pyval" where
  "assert_range cfg pf fs site v min_val max_val msg =
     (case validate_with_engine cfg pf fs site (RangeCheck min_val max_val) v msg of
        Inl e \<Rightarrow> Inl e
      | Inr is_valid \<Rightarrow> Inr v)"

definition assert_length ::
  "ValidationConfig \<Rightarrow> platform \<Rightarrow> filesystem \<Rightarrow> string \<Rightarrow> pyval \<Rightarrow> int option \<Rightarrow> int option
     \<Rightarrow> string option \<Rightarrow> pyerror + pyval" where
  "assert_length cfg pf fs site v min_len max_len msg =
     (case validate_with_engine cfg pf fs site (LengthCheck min_len max_len None) v msg of
        Inl e \<Rightarrow> Inl e
      | Inr is_valid \<Rightarrow> Inr v)"

text \<open>
  \<open>key in value\<close> for a str key. On a dict it looks the key up; the other classes are
  reached only when the type check before it did not raise.
\<close>

definition not_iterable :: "pyval \<Rightarrow> pyerror" where
  "not_iterable v =
     Raised TypeError (''argument of type '' @ quoted (type_name (type_of v)) @ '' is not iterable'')"

fun py_contains :: "pyval \<Rightarrow> string \<Rightarrow> pyerror + bool" where
  "py_contains (VDict kvs) k = Inr (k \<in> set (map fst kvs))"
| "py_contains (VStr s) k = Inr (sublist k s)"
| "py_contains (VList xs) k = Inr (VStr k \<in> set xs)"
| "py_contains (VTuple xs) k = Inr (VStr k \<in> set xs)"
| "py_contains (VBytes s) k =
     Inl (Raised TypeError (''a bytes-like object is required, not '' @ quoted ''str''))"
| "py_contains v k = Inl (not_iterable v)"

text \<open>\<open>[key for key in keys_to_check if key not in value]\<close>\<close>

fun missing_keys :: "pyval \<Rightarrow> string list \<Rightarrow> pyerror + string list" where
  "missing_keys v [] = Inr []"
| "missing_keys v (k # ks) =
     (case py_contains v k of
        Inl e \<Rightarrow> Inl e
      | Inr present \<Rightarrow>
          (case missing_keys v ks of
             Inl e \<Rightarrow> Inl e
           | Inr rest \<Rightarrow> Inr (if present then rest else k # rest)))"

datatype required = OneKey string | KeyList "string list"

fun keys_to_check :: "required \<Rightarrow> string list" where
  "keys_to_check (OneKey k) = [k]"
| "keys_to_check (KeyList ks) = ks"

fun missing_message :: "string \<Rightarrow> string list \<Rightarrow> string" where
  "missing_message var_name [k] = quoted var_name @ '' missing required key: '' @ quoted k"
| "missing_message var_name ks = quoted var_name @ '' missing required keys: '' @ py_repr_str_list ks"

definition assert_mapping ::
  "ValidationConfig \<Rightarrow> platform \<Rightarrow> filesystem \<Rightarrow> string \<Rightarrow> pyval \<Rightarrow> required option
     \<Rightarrow> string option \<Rightarrow> pyerror + pyval" where
  "assert_mapping cfg pf fs site v required_keys msg =
     (case assert_with_engine cfg pf fs site (TypeCheck (Some (OneType TDict))) v msg of
        Inl e \<Rightarrow> Inl e
      | Inr u \<Rightarrow>
          (case required_keys of
             None \<Rightarrow> Inr v
           | Some rk \<Rightarrow>
               (let var_name = get_variable_name cfg site in
                case missing_keys v (keys_to_check rk) of
                  Inl e \<Rightarrow> Inl e
                | Inr missing \<Rightarrow>
                    if missing \<noteq> [] then
                      Inl (Raised (custom_error_class cfg)
                             (text_or msg (missing_message var_name missing)))
                    else Inr v)))"

text \<open>
  The conversion at the head of \<open>assert_path\<close>: \<open>Inl\<close> carries the text of the
  \<open>TypeError\<close> or \<open>ValueError\<close> caught there.
\<close>

fun assert_path_obj :: "platform \<Rightarrow> pyval \<Rightarrow> string + string" where
  "assert_path_obj pf (VPath p) = Inr p"
| "assert_path_obj pf (VStr s) = Inr (path_text pf s)"
| "assert_path_obj pf (VBytes s) = Inr (path_text pf (py_repr_bytes s))"
| "assert_path_obj pf v = Inl (path_type_error pf v)"

text \<open>\<open>assert_path\<close> may create directories: it returns the file system as well.\<close>

definition create_parent_dirs ::
  "platform \<Rightarrow> filesystem \<Rightarrow> string \<Rightarrow> bool \<Rightarrow> string option \<times> filesystem" where
  "create_parent_dirs pf fs p create_parents =
     (if create_parents \<and> \<not> path_exists fs (path_parent pf p)
      then mkdir_parents pf fs (path_parent pf p)
      else (None, fs))"

definition assert_path ::
  "ValidationConfig \<Rightarrow> platform \<Rightarrow> filesystem \<Rightarrow> string \<Rightarrow> pyval \<Rightarrow> bool option \<Rightarrow> bool \<Rightarrow> bool
     \<Rightarrow> bool \<Rightarrow> string option \<Rightarrow> (pyerror + pyval) \<times> filesystem" where
  "assert_path cfg pf fs site v must_exist must_be_file must_be_dir create_parents msg =
     (let var_name = get_variable_name cfg site in
      case assert_path_obj pf v of
        Inl e \<Rightarrow>
          (Inl (Raised (custom_error_class cfg)
                  (text_or msg (quoted var_name @ '' cannot be converted to a Path: '' @ e))), fs)
      | Inr p \<Rightarrow>
          if empty_text v then
            (Inl (Raised (custom_error_class cfg)
                    (text_or msg (quoted var_name @ '' cannot be an empty path''))), fs)
          else
            (case create_parent_dirs pf fs p create_parents of
               (Some e, fs') \<Rightarrow>
                 (Inl (Raised (custom_error_class cfg)
                         (text_or msg (quoted var_name
                            @ '' parent directories could not be created: '' @ e))), fs')
             | (None, fs') \<Rightarrow>
                 (case validate_with_engine cfg pf fs' site
                         (PathCheck must_exist must_be_file must_be_dir) (VPath p) msg of
                    Inl e \<Rightarrow> (Inl e, fs')
                  | Inr is_valid \<Rightarrow> (Inr (VPath p), fs'))))"

section \<open>Factories (factory\_functions.py)\<close>

text \<open>An engine is created with the configuration given; it is identified with it here.\<close>

definition engine_init :: "ValidationConfig option \<Rightarrow> ValidationConfig" where
  "engine_init config = (case config of None \<Rightarrow> default_config | Some c \<Rightarrow> c)"

definition create_validation_engine :: "bool \<Rightarrow> bool \<Rightarrow> bool \<Rightarrow> exc_class \<Rightarrow> ValidationConfig" where
  "create_validation_engine sm aen rof cec =
     engine_init (Some \<lparr>strict_mode = sm, auto_extract_names = aen, raise_on_failure = rof,
                        custom_error_class = cec\<rparr>)"

definition create_lenient_engine :: ValidationConfig where
  "create_lenient_engine = create_validation_engine False True False TypeAssertionError"

section \<open>ValidationContext (validation\_context.py)\<close>

text \<open>
  Engines are shared mutable objects: the heap gives every engine its current
  \<open>config\<close> attribute, and a context object holds a reference to its engine. The
  keyword overrides are the four names \<open>__enter__\<close> reads, each given or not.
\<close>

type_synonym engine_ref = nat

type_synonym heap = "engine_ref \<Rightarrow> ValidationConfig"

record overrides =
  ov_strict_mode :: "bool option"
  ov_auto_extract_names :: "bool option"
  ov_raise_on_failure :: "bool option"
  ov_custom_error_class :: "exc_class option"

record ValidationContext =
  engine :: engine_ref
  original_config :: ValidationConfig
  config_overrides :: overrides

definition context_init :: "engine_ref \<Rightarrow> overrides \<Rightarrow> heap \<Rightarrow> ValidationContext" where
  "context_init e ov h = \<lparr>engine = e, original_config = h e, config_overrides = ov\<rparr>"

definition dict_get :: "'a option \<Rightarrow> 'a \<Rightarrow> 'a" where
  "dict_get entry dflt = (case entry of None \<Rightarrow> dflt | Some x \<Rightarrow> x)"

definition new_config :: "ValidationContext \<Rightarrow> ValidationConfig" where
  "new_config ctx =
     \<lparr>strict_mode =
        dict_get (ov_strict_mode (config_overrides ctx)) (strict_mode (original_config ctx)),
      auto_extract_names =
        dict_get (ov_auto_extract_names (config_overrides ctx))
          (auto_extract_names (original_config ctx)),
      raise_on_failure =
        dict_get (ov_raise_on_failure (config_overrides ctx))
          (raise_on_failure (original_config ctx)),
      custom_error_class =
        dict_get (ov_custom_error_class (config_overrides ctx))
          (custom_error_class (original_config ctx))\<rparr>"

definition context_enter :: "ValidationContext \<Rightarrow> heap \<Rightarrow> engine_ref \<times> heap" where
  "context_enter ctx h = (engine ctx, h(engine ctx := new_config ctx))"

definition context_exit :: "ValidationContext \<Rightarrow> heap \<Rightarrow> heap" where
  "context_exit ctx h = h(engine ctx := original_config ctx)"

text \<open>
  \<open>with ctx as e: body\<close>. The body returns a value or raises, and may itself change the
  heap; \<open>__exit__\<close> runs on both paths and returns \<open>None\<close>, so an exception of the body
  propagates.
\<close>

definition with_context ::
  "ValidationContext \<Rightarrow> (engine_ref \<Rightarrow> heap \<Rightarrow> (pyerror + 'a) \<times> heap) \<Rightarrow> heap
     \<Rightarrow> (pyerror + 'a) \<times> heap" where
  "with_context ctx body h =
     (case context_enter ctx h of
        (e, h1) \<Rightarrow> (case body e h1 of (r, h2) \<Rightarrow> (r, context_exit ctx h2)))"

text \<open>\<open>with ValidationContext(engine, **overrides) as e: body\<close>\<close>

definition scoped ::
  "engine_ref \<Rightarrow> overrides \<Rightarrow> (engine_ref \<Rightarrow> heap \<Rightarrow> (pyerror + 'a) \<times> heap) \<Rightarrow> heap
     \<Rightarrow> (pyerror + 'a) \<times> heap" where
  "scoped e ov body h = with_context (context_init e ov h) body h"

section \<open>Sample inputs\<close>

text \<open>
  A platform and a file system to evaluate the definitions on: paths keep the text they
  are built from, \<open>/tmp\<close> is a directory and \<open>/tmp/a.txt\<close> a file in it.
\<close>

definition sample_platform :: platform where
  "sample_platform =
     \<lparr>fin_str = (\<lambda>q. if q = 1 / 2 then ''0.5'' else ''1.5''),
      path_text = (\<lambda>s. s),
      path_type_error =
        (\<lambda>v. ''expected str, bytes or os.PathLike object, not '' @ type_name (type_of v)),
      path_parent = (\<lambda>p. ''/tmp''),
      mkdir_parents = (\<lambda>fs p. (None, fs(p \<mapsto> Dir)))\<rparr>"

definition sample_fs :: filesystem where
  "sample_fs =
     (\<lambda>p. if p = ''/tmp'' then Some Dir else if p = ''/tmp/a.txt'' then Some File else None)"

section \<open>Vocabulary of the specification\<close>

text \<open>
  The configuration a scope installs, in the specification's words: the overrides merged
  over the captured configuration.
\<close>

definition merged :: "overrides \<Rightarrow> ValidationConfig \<Rightarrow> ValidationConfig" where
  "merged ov c =
     \<lparr>strict_mode = (case ov_strict_mode ov of None \<Rightarrow> strict_mode c | Some b \<Rightarrow> b),
      auto_extract_names =
        (case ov_auto_extract_names ov of None \<Rightarrow> auto_extract_names c | Some b \<Rightarrow> b),
      raise_on_failure =
        (case ov_raise_on_failure ov of None \<Rightarrow> raise_on_failure c | Some b \<Rightarrow> b),
      custom_error_class =
        (case ov_custom_error_class ov of None \<Rightarrow> custom_error_class c | Some k \<Rightarrow> k)\<rparr>"

text \<open>The candidate types an \<open>expected_type\<close> argument names.\<close>

fun candidates :: "expected \<Rightarrow> pytype list" where
  "candidates (OneType t) = [t]"
| "candidates (TypeList ts) = ts"
| "candidates (TypeTuple ts) = ts"

text \<open>
  A class name is an identifier: none of its characters is one that \<open>repr\<close> escapes.
  The names of the builtin classes are.
\<close>

definition plain_char :: "char \<Rightarrow> bool" where
  "plain_char c = (str_printable c \<and> c \<noteq> CHR 0x27 \<and> c \<noteq> CHR 0x5C)"

definition well_named :: "pytype \<Rightarrow> bool" where
  "well_named t = list_all plain_char (type_name t)"

text \<open>
  Python's \<open><=\<close> on numbers, \<open>lo <= v <= hi\<close> with an absent bound unconstrained, and
  the floats that are NaN.
\<close>

definition num_le :: "pynum \<Rightarrow> pynum \<Rightarrow> bool" where
  "num_le a b =
     (case (num_key a, num_key b) of
        (Some (r, x), Some (s, y)) \<Rightarrow> r < s \<or> (r = s \<and> x \<le> y)
      | _ \<Rightarrow> False)"

fun is_nan :: "pynum \<Rightarrow> bool" where
  "is_nan (NumFloat NaN) = True"
| "is_nan n = False"

definition in_range :: "pynum \<Rightarrow> pynum option \<Rightarrow> pynum option \<Rightarrow> bool" where
  "in_range n lo hi =
     ((case lo of None \<Rightarrow> True | Some l \<Rightarrow> num_le l n)
      \<and> (case hi of None \<Rightarrow> True | Some u \<Rightarrow> num_le n u))"

section \<open>Properties\<close>

subsection \<open>The type validator without an expected type\<close>

lemma assertion_class_not_above_ValueError:
  "issubclass c AssertionError \<Longrightarrow> c \<noteq> ValueError \<and> c \<noteq> Exception"
  by (cases c) auto

text \<open>
  C8, as amended. Whatever the value, the configuration and the custom message, the type
  validator called without an expected type raises \<open>ValueError\<close> with the message
  \<open>expected_type must be provided\<close>, and so do \<open>_validate_with_engine\<close> and
  \<open>assert_type\<close>: no boolean comes back, also when \<open>raise_on_failure\<close> is off. The
  exception is an instance of the configured error class exactly when that class is
  \<open>ValueError\<close> or \<open>Exception\<close>; it is not when the configured class is
  \<open>TypeAssertionError\<close> or any other subclass of \<open>AssertionError\<close>.
\<close>

theorem type_validator_requires_expected_type:
  "type_validate v None = Inl (Raised ValueError ''expected_type must be provided'')
   \<and> validate_with_engine cfg pf fs site (TypeCheck None) v msg
       = Inl (Raised ValueError ''expected_type must be provided'')
   \<and> assert_type cfg pf fs site v None msg
       = Inl (Raised ValueError ''expected_type must be provided'')
   \<and> (exc_isinstance (Raised ValueError ''expected_type must be provided'')
          (custom_error_class cfg)
        \<longleftrightarrow> custom_error_class cfg = ValueError \<or> custom_error_class cfg = Exception)
   \<and> (issubclass (custom_error_class cfg) AssertionError \<longrightarrow>
        \<not> exc_isinstance (Raised ValueError ''expected_type must be provided'')
            (custom_error_class cfg))"
  by (auto simp: validate_with_engine_def assert_type_def assert_with_engine_def
      dest: assertion_class_not_above_ValueError)

theorem type_validator_requires_expected_type_witness:
  "issubclass (custom_error_class default_config) AssertionError
   \<and> assert_type default_config sample_platform sample_fs ''x'' (VInt 5) None None
       = Inl (Raised ValueError ''expected_type must be provided'')
   \<and> \<not> exc_isinstance (Raised ValueError ''expected_type must be provided'')
         (custom_error_class default_config)
   \<and> exc_isinstance (Raised ValueError ''expected_type must be provided'')
         (custom_error_class (default_config\<lparr>custom_error_class := Exception\<rparr>))"
  using type_validator_requires_expected_type
      [of "VInt 5" default_config sample_platform sample_fs "''x''" None]
    type_validator_requires_expected_type
      [of "VInt 5" "default_config\<lparr>custom_error_class := Exception\<rparr>" sample_platform
        sample_fs "''x''" None]
  by (simp add: default_config_def)

text \<open>
  C8 as stated fails where it says never: any exception class can be configured, and on
  an engine configured with \<open>ValueError\<close> the error raised is an instance of the
  configured class.
\<close>

theorem configured_ValueError_counterexample:
  "assert_type (default_config\<lparr>custom_error_class := ValueError\<rparr>) sample_platform sample_fs
       ''x'' (VInt 5) None None
     = Inl (Raised ValueError ''expected_type must be provided'')
   \<and> exc_isinstance (Raised ValueError ''expected_type must be provided'')
         (custom_error_class (default_config\<lparr>custom_error_class := ValueError\<rparr>))"
  by (simp add: assert_type_def assert_with_engine_def validate_with_engine_def)

subsection \<open>Booleans are integers\<close>

text \<open>
  C10. For every boolean \<open>b\<close>, \<open>assert_numeric(b)\<close> and \<open>assert_type(b, int)\<close> return \<open>b\<close>,
  under every configuration, and \<open>assert_numeric(True, min_val=0, max_val=1)\<close> returns
  \<open>True\<close>: \<open>isinstance\<close> accepts a bool where an int is expected.
\<close>

theorem bool_passes_as_int:
  "assert_numeric cfg pf fs site (VBool b) None None msg = Inr (VBool b)
   \<and> assert_type cfg pf fs site (VBool b) (Some (OneType TInt)) msg = Inr (VBool b)
   \<and> assert_numeric cfg pf fs site (VBool True) (Some (NumInt 0)) (Some (NumInt 1)) msg
       = Inr (VBool True)"
  by (simp add: assert_numeric_def assert_type_def assert_with_engine_def
      validate_with_engine_def py_isinstance_def range_validate_def below_min_def
      above_max_def py_less_def py_greater_def num_lt_def)

theorem bool_passes_as_int_witness:
  "assert_numeric default_config sample_platform sample_fs ''flag'' (VBool False) None None None
     = Inr (VBool False)
   \<and> assert_type default_config sample_platform sample_fs ''flag'' (VBool False)
       (Some (OneType TInt)) None = Inr (VBool False)
   \<and> assert_numeric default_config sample_platform sample_fs ''flag'' (VBool True)
       (Some (NumInt 0)) (Some (NumInt 1)) None = Inr (VBool True)"
  using bool_passes_as_int [of default_config sample_platform sample_fs "''flag''" False None]
  by simp

subsection \<open>Scoped configuration\<close>

lemma new_config_merged: "new_config (context_init e ov h) = merged ov (h e)"
  by (simp add: new_config_def context_init_def merged_def dict_get_def)

lemma enter_installs:
  "context_enter (context_init e ov h) h' = (e, h'(e := merged ov (h e)))"
  by (simp add: context_enter_def new_config_merged) (simp add: context_init_def)

lemma with_context_result:
  "fst (with_context (context_init e ov h) body h') = fst (body e (h'(e := merged ov (h e))))"
  by (simp add: with_context_def enter_installs split: prod.splits)

lemma with_context_heap:
  "snd (with_context (context_init e ov h) body h') =
     (snd (body e (h'(e := merged ov (h e)))))(e := h e)"
  by (simp add: with_context_def enter_installs context_exit_def split: prod.splits)
     (simp add: context_init_def)

lemma scoped_restores: "snd (scoped e ov body h) e = h e"
  by (simp add: scoped_def with_context_heap)

lemma scoped_result: "fst (scoped e ov body h) = fst (body e (h(e := merged ov (h e))))"
  by (simp add: scoped_def with_context_result)

lemma validate_without_raising:
  "\<not> raise_on_failure cfg \<Longrightarrow> validate_with_engine cfg pf fs site c v msg = validate pf fs c v"
  by (simp add: validate_with_engine_def split: sum.splits)

lemma assert_type_without_raising:
  "\<not> raise_on_failure cfg \<Longrightarrow> assert_type cfg pf fs site v (Some T) msg = Inr v"
  by (cases T) (simp_all add: assert_type_def assert_with_engine_def validate_without_raising)

text \<open>
  The scope itself. For every engine \<open>e\<close>, heap \<open>h\<close> and overrides \<open>ov\<close>, the scope
  \<open>with ValidationContext(e, **ov)\<close> installs the overrides merged over the engine's
  configuration; the block's value or exception is the scope's; and after the scope the
  engine's configuration is the one it had before, whatever the block returned, raised or
  did to the heap. Inside a scope with \<open>raise_on_failure=False\<close> a check that goes through
  \<open>_validate_with_engine\<close> gives back the validator's boolean, and \<open>assert_type\<close> with an
  expected type returns its argument whether it matches or not. An inner scope restores
  the configuration the outer scope installed, and the outer scope the original one.
\<close>

lemma scope_installs_and_restores:
  fixes body :: "engine_ref \<Rightarrow> heap \<Rightarrow> (pyerror + 'a) \<times> heap"
    and inner :: "engine_ref \<Rightarrow> heap \<Rightarrow> (pyerror + 'b) \<times> heap"
  shows
  "context_enter (context_init e ov h) h = (e, h(e := merged ov (h e)))
   \<and> fst (scoped e ov body h) = fst (body e (h(e := merged ov (h e))))
   \<and> snd (scoped e ov body h) e = h e
   \<and> fst (scoped e (ov\<lparr>ov_raise_on_failure := Some False\<rparr>)
            (\<lambda>r k. (validate_with_engine (k r) pf fs site c v msg, k)) h)
       = validate pf fs c v
   \<and> fst (scoped e (ov\<lparr>ov_raise_on_failure := Some False\<rparr>)
            (\<lambda>r k. (assert_type (k r) pf fs site v (Some T) msg, k)) h)
       = Inr v
   \<and> snd (scoped e ovi inner (h(e := merged ov (h e)))) e = merged ov (h e)
   \<and> snd (scoped e ov (\<lambda>r k. scoped r ovi inner k) h) e = h e"
  by (simp add: enter_installs scoped_restores scoped_result validate_without_raising merged_def
      assert_type_without_raising)

text \<open>
  C1 fails on the code. Inside a scope entered with \<open>raise_on_failure=False\<close> on an
  engine with the default configuration, \<open>assert_not_none(None)\<close>, \<open>assert_mapping\<close> with
  a missing required key and \<open>assert_path("")\<close> raise the configured error class: these
  checks never read \<open>raise_on_failure\<close>. The scope still restores the configuration
  when the exception leaves it.
\<close>

theorem scope_without_raising_still_raises:
  "fst (scoped 0
          \<lparr>ov_strict_mode = None, ov_auto_extract_names = None,
           ov_raise_on_failure = Some False, ov_custom_error_class = None\<rparr>
          (\<lambda>r k. (assert_not_none (k r) site VNone None, k))
          (\<lambda>r. default_config))
     = Inl (Raised TypeAssertionError (quoted site @ '' must not be None''))
   \<and> fst (scoped 0
          \<lparr>ov_strict_mode = None, ov_auto_extract_names = None,
           ov_raise_on_failure = Some False, ov_custom_error_class = None\<rparr>
          (\<lambda>r k. (assert_mapping (k r) pf fs site (VDict []) (Some (OneKey ''a'')) None, k))
          (\<lambda>r. default_config))
     = Inl (Raised TypeAssertionError (quoted site @ '' missing required key: '' @ quoted ''a''))
   \<and> fst (scoped 0
          \<lparr>ov_strict_mode = None, ov_auto_extract_names = None,
           ov_raise_on_failure = Some False, ov_custom_error_class = None\<rparr>
          (\<lambda>r k. (fst (assert_path (k r) pf fs site (VStr '''') None False False False None),
                   k))
          (\<lambda>r. default_config))
     = Inl (Raised TypeAssertionError (quoted site @ '' cannot be an empty path''))
   \<and> \<not> raise_on_failure
         (merged \<lparr>ov_strict_mode = None, ov_auto_extract_names = None,
                  ov_raise_on_failure = Some False, ov_custom_error_class = None\<rparr>
            default_config)
   \<and> snd (scoped 0
          \<lparr>ov_strict_mode = None, ov_auto_extract_names = None,
           ov_raise_on_failure = Some False, ov_custom_error_class = None\<rparr>
          (\<lambda>r k. (assert_not_none (k r) site VNone None, k))
          (\<lambda>r. default_config)) 0
     = default_config"
  by (simp add: scoped_result scoped_restores merged_def default_config_def assert_not_none_def
      assert_mapping_def assert_path_def assert_with_engine_def validate_with_engine_def
      py_isinstance_def text_or_def get_variable_name_def Let_def)

text \<open>
  C9. The context object captures the configuration when it is constructed. If the
  engine's configuration is replaced (by \<open>c'\<close>) between construction and entry, entry
  still installs the overrides merged over the construction-time configuration, and exit
  restores the construction-time configuration: the replacement is lost.
\<close>

theorem context_captures_at_construction:
  fixes body :: "engine_ref \<Rightarrow> heap \<Rightarrow> (pyerror + 'a) \<times> heap"
  shows
  "original_config (context_init e ov h) = h e
   \<and> context_enter (context_init e ov h) (h(e := c')) = (e, h(e := merged ov (h e)))
   \<and> snd (with_context (context_init e ov h) body (h(e := c'))) e = h e"
  by (simp add: enter_installs with_context_heap) (simp add: context_init_def)

theorem context_captures_at_construction_witness:
  "snd (with_context
          (context_init 0
             \<lparr>ov_strict_mode = None, ov_auto_extract_names = None,
              ov_raise_on_failure = Some False, ov_custom_error_class = None\<rparr>
             (\<lambda>r. default_config))
          (\<lambda>r k. (Inr True :: pyerror + bool, k))
          ((\<lambda>r. default_config)(0 := create_lenient_engine))) 0
     = default_config
   \<and> default_config \<noteq> create_lenient_engine"
  using context_captures_at_construction
    [where e = 0 and h = "\<lambda>r. default_config" and c' = create_lenient_engine
       and ov = "\<lparr>ov_strict_mode = None, ov_auto_extract_names = None,
                  ov_raise_on_failure = Some False, ov_custom_error_class = None\<rparr>"
       and body = "\<lambda>r k. (Inr True :: pyerror + bool, k)"]
  by (simp add: default_config_def create_lenient_engine_def create_validation_engine_def
      engine_init_def)

subsection \<open>Type membership\<close>

lemma sublist_in: "sublist x y \<Longrightarrow> sublist x (a @ y @ b)"
  by (metis sublist_appendI sublist_order.order.trans)

lemma sublist_quoted: "sublist x (quoted x @ r)"
  unfolding quoted_def by (metis append_Cons append_Nil append_assoc sublist_appendI)

lemma sublist_quoted': "sublist x (quoted x)"
  using sublist_quoted [of x "[]"] by simp

lemma join_contains: "x \<in> set xs \<Longrightarrow> sublist x (join sep xs)"
proof (induction sep xs rule: join.induct)
  case (1 sep)
  then show ?case by simp
next
  case (2 sep y)
  then show ?case by simp
next
  case (3 sep y z zs)
  show ?case
  proof (cases "x = y")
    case True
    then show ?thesis by simp
  next
    case False
    with 3 have "sublist x (join sep (z # zs))" by simp
    then have "sublist x ((y @ sep) @ join sep (z # zs) @ [])" by (rule sublist_in)
    then show ?thesis by simp
  qed
qed

lemma escape_plain:
  "plain_char c \<Longrightarrow> escape_char str_printable (CHR 0x27) c = [c]"
  by (auto simp: plain_char_def escape_char_def str_printable_def Let_def)

lemma quote_for_plain: "list_all plain_char s \<Longrightarrow> quote_for s = CHR 0x27"
  by (auto simp: quote_for_def plain_char_def list_all_iff)

lemma concat_escape_plain:
  "list_all plain_char s \<Longrightarrow> concat (map (escape_char str_printable (CHR 0x27)) s) = s"
  by (induction s) (simp_all add: escape_plain)

lemma repr_plain: "list_all plain_char s \<Longrightarrow> py_repr_str s = quoted s"
  by (simp add: py_repr_str_def quote_for_plain concat_escape_plain quoted_def Let_def)

lemma repr_list_contains:
  assumes "x \<in> set xs" "list_all plain_char x"
  shows "sublist x (py_repr_str_list xs)"
proof -
  have "py_repr_str x \<in> set (map py_repr_str xs)" using assms(1) by simp
  then have "sublist (py_repr_str x) (join '', '' (map py_repr_str xs))" by (rule join_contains)
  moreover have "sublist x (py_repr_str x)" using assms(2) by (simp add: repr_plain sublist_quoted')
  ultimately have "sublist x (join '', '' (map py_repr_str xs))"
    by (meson sublist_order.order.trans)
  then show ?thesis unfolding py_repr_str_list_def by (rule sublist_in)
qed

lemma qualname_contains: "sublist (type_name t) (class_qualname t)"
proof (cases t)
  case TPath
  have "sublist ''Path'' (''pathlib.'' @ ''Path'')" by (rule sublist_append_leftI)
  with TPath show ?thesis by simp
next
  case TPosixPath
  have "sublist ''PosixPath'' (''pathlib.'' @ ''PosixPath'')" by (rule sublist_append_leftI)
  with TPosixPath show ?thesis by simp
next
  case (TClass m c)
  have "sublist c ((m @ ''.'') @ c)" by (rule sublist_append_leftI)
  with TClass show ?thesis by simp
qed simp_all

lemma class_repr_contains: "sublist (type_name t) (class_repr t)"
proof -
  have "sublist (class_qualname t) (class_repr t)"
    unfolding class_repr_def using sublist_in [OF sublist_quoted'] .
  then show ?thesis using qualname_contains by (meson sublist_order.order.trans)
qed

lemma class_tuple_contains:
  assumes "t \<in> set ts"
  shows "sublist (type_name t) (py_str_class_tuple ts)"
proof -
  have j: "sublist (type_name t) (join '', '' (map class_repr ts))"
  proof -
    have "class_repr t \<in> set (map class_repr ts)" using assms by simp
    then have "sublist (class_repr t) (join '', '' (map class_repr ts))" by (rule join_contains)
    then show ?thesis using class_repr_contains by (meson sublist_order.order.trans)
  qed
  show ?thesis
  proof (cases ts)
    case Nil
    with assms show ?thesis by simp
  next
    case (Cons u us)
    show ?thesis
    proof (cases us)
      case Nil
      with Cons assms have "t = u" by simp
      with Nil Cons show ?thesis
        using sublist_in [OF class_repr_contains, where a = "''(''" and b = "'',)''"] by simp
    next
      case (Cons w ws)
      with \<open>ts = u # us\<close> show ?thesis
        using sublist_in [OF j, where a = "''(''" and b = "'')''"] by simp
    qed
  qed
qed

lemma type_validate_candidates:
  "type_validate v (Some T) = Inr (list_ex (py_isinstance v) (candidates T))"
  by (cases T) simp_all

lemma type_message_contains:
  assumes "\<forall>t\<in>set (candidates T). well_named t"
  shows "\<exists>m. type_get_error_message v nm (Some T) = Inr m \<and> sublist nm m
             \<and> (\<forall>t\<in>set (candidates T). sublist (type_name t) m)"
proof (cases T)
  case (OneType t)
  have "sublist (type_name t) (quoted nm @ '' must be of type '' @ quoted (type_name t)
          @ '', but got '' @ quoted (type_name (type_of v)))"
    using sublist_in [OF sublist_quoted', where a = "quoted nm @ '' must be of type ''"]
    by simp
  with OneType show ?thesis by (simp add: sublist_quoted)
next
  case (TypeList ts)
  have "sublist (type_name t) (quoted nm @ '' must be one of types ''
          @ py_repr_str_list (map type_name ts) @ '', but got '' @ quoted (type_name (type_of v)))"
    if "t \<in> set ts" for t
  proof -
    have "type_name t \<in> set (map type_name ts)" using that by simp
    moreover have "list_all plain_char (type_name t)"
      using assms that TypeList by (simp add: well_named_def)
    ultimately have "sublist (type_name t) (py_repr_str_list (map type_name ts))"
      by (rule repr_list_contains)
    from sublist_in [OF this, where a = "quoted nm @ '' must be one of types ''"] show ?thesis by simp
  qed
  with TypeList show ?thesis by (simp add: sublist_quoted)
next
  case (TypeTuple ts)
  have "sublist (type_name t) (quoted nm @ '' must be of type '' @ quoted (py_str_class_tuple ts)
          @ '', but got '' @ quoted (type_name (type_of v)))"
    if "t \<in> set ts" for t
  proof -
    have "sublist (type_name t) (quoted (py_str_class_tuple ts))"
      using class_tuple_contains [OF that] sublist_quoted' by (meson sublist_order.order.trans)
    from sublist_in [OF this, where a = "quoted nm @ '' must be of type ''"] show ?thesis by simp
  qed
  with TypeTuple show ?thesis by (simp add: sublist_quoted)
qed

lemma type_message_defined: "\<exists>m. type_get_error_message v nm (Some T) = Inr m"
  by (cases T) simp_all

text \<open>
  C3, as amended. On an engine that raises on failure, for every value \<open>v\<close> and every
  expected type \<open>T\<close> (one class, a list or a tuple of classes), \<open>assert_type(v, T)\<close>
  returns \<open>v\<close> if and only if \<open>v\<close> is an instance of one of the classes of \<open>T\<close>, whatever
  the custom message; otherwise it raises the configured error class. With no custom
  message, and class names free of the characters \<open>repr\<close> escapes (as every identifier
  is), the message raised contains the subject name and the name of every class of \<open>T\<close>.
\<close>

theorem assert_type_membership:
  assumes "raise_on_failure cfg"
  shows "(assert_type cfg pf fs site v (Some T) msg = Inr v
            \<longleftrightarrow> (\<exists>t\<in>set (candidates T). py_isinstance v t))
         \<and> (\<not> (\<exists>t\<in>set (candidates T). py_isinstance v t) \<longrightarrow>
              (\<exists>m. assert_type cfg pf fs site v (Some T) msg
                      = Inl (Raised (custom_error_class cfg) m)))
         \<and> (\<not> (\<exists>t\<in>set (candidates T). py_isinstance v t)
              \<and> (\<forall>t\<in>set (candidates T). well_named t) \<longrightarrow>
              (\<exists>m. assert_type cfg pf fs site v (Some T) None
                      = Inl (Raised (custom_error_class cfg) m)
                   \<and> sublist (get_variable_name cfg site) m
                   \<and> (\<forall>t\<in>set (candidates T). sublist (type_name t) m)))"
proof -
  have a: "assert_type cfg pf fs site v (Some T) msg = Inr v"
    if "\<exists>t\<in>set (candidates T). py_isinstance v t"
    using that by (simp add: assert_type_def assert_with_engine_def validate_with_engine_def
        type_validate_candidates list_ex_iff)
  have b: "assert_type cfg pf fs site v (Some T) msg'
             = Inl (Raised (custom_error_class cfg) (text_or msg' m))"
    if "\<not> (\<exists>t\<in>set (candidates T). py_isinstance v t)"
      and "type_get_error_message v (get_variable_name cfg site) (Some T) = Inr m" for msg' m
    using that assms
    by (simp add: assert_type_def assert_with_engine_def validate_with_engine_def
        type_validate_candidates list_ex_iff msg_or_def text_or_def split: option.splits)
  have c: "\<exists>m. assert_type cfg pf fs site v (Some T) msg = Inl (Raised (custom_error_class cfg) m)"
    if "\<not> (\<exists>t\<in>set (candidates T). py_isinstance v t)"
    using b [OF that] type_message_defined [of v "get_variable_name cfg site" T] by blast
  have d: "\<exists>m. assert_type cfg pf fs site v (Some T) None
                      = Inl (Raised (custom_error_class cfg) m)
                   \<and> sublist (get_variable_name cfg site) m
                   \<and> (\<forall>t\<in>set (candidates T). sublist (type_name t) m)"
    if n: "\<not> (\<exists>t\<in>set (candidates T). py_isinstance v t)"
      and w: "\<forall>t\<in>set (candidates T). well_named t"
  proof -
    obtain m where m: "type_get_error_message v (get_variable_name cfg site) (Some T) = Inr m"
      "sublist (get_variable_name cfg site) m"
      "\<forall>t\<in>set (candidates T). sublist (type_name t) m"
      using type_message_contains [OF w] by blast
    from b [OF n m(1), of None] have "assert_type cfg pf fs site v (Some T) None
        = Inl (Raised (custom_error_class cfg) m)" by (simp add: text_or_def)
    with m(2,3) show ?thesis by blast
  qed
  have e: "assert_type cfg pf fs site v (Some T) msg \<noteq> Inr v"
    if "\<not> (\<exists>t\<in>set (candidates T). py_isinstance v t)"
    using c [OF that] by auto
  from a c d e show ?thesis by blast
qed

theorem assert_type_membership_witness:
  "raise_on_failure default_config
   \<and> list_all well_named (candidates (TypeList [TStr, TBytes]))
   \<and> assert_type default_config sample_platform sample_fs ''x'' (VStr ''a'')
         (Some (TypeList [TStr, TBytes])) None = Inr (VStr ''a'')
   \<and> (\<exists>m. assert_type default_config sample_platform sample_fs ''x'' (VInt 42)
         (Some (TypeList [TStr, TBytes])) None = Inl (Raised TypeAssertionError m)
        \<and> sublist ''x'' m \<and> sublist ''str'' m \<and> sublist ''bytes'' m)"
proof -
  have h1: "raise_on_failure default_config" by (simp add: default_config_def)
  have h2: "\<forall>t\<in>set (candidates (TypeList [TStr, TBytes])). well_named t"
    by (simp add: well_named_def plain_char_def str_printable_def)
  from assert_type_membership
      [OF h1, of sample_platform sample_fs "''x''" "VStr ''a''" "TypeList [TStr, TBytes]" None]
    assert_type_membership
      [OF h1, of sample_platform sample_fs "''x''" "VInt 42" "TypeList [TStr, TBytes]" None]
  show ?thesis using h1 h2
    by (simp add: py_isinstance_def default_config_def list_all_iff get_variable_name_def)
qed

text \<open>
  C3 as stated fails in three places. On the engine of \<open>create_lenient_engine\<close>,
  \<open>assert_type(5, str)\<close> returns 5 although 5 is no str. A custom message replaces
  the generated one and need not name the type. A class whose name holds a backslash is
  listed through \<open>repr\<close>, which doubles the backslash, so the message does not contain
  the name.
\<close>

theorem assert_type_membership_counterexample:
  "assert_type create_lenient_engine sample_platform sample_fs ''x'' (VInt 5)
       (Some (OneType TStr)) None = Inr (VInt 5)
   \<and> \<not> py_isinstance (VInt 5) TStr
   \<and> assert_type default_config sample_platform sample_fs ''x'' (VInt 5)
       (Some (OneType TStr)) (Some ''bad input'')
     = Inl (Raised TypeAssertionError ''bad input'')
   \<and> \<not> sublist ''str'' ''bad input''
   \<and> assert_type default_config sample_platform sample_fs ''x'' (VInt 5)
       (Some (TypeList [TClass ''m'' [CHR ''a'', CHR 0x5C, CHR ''b'']])) None
     = Inl (Raised TypeAssertionError
             (quoted ''x'' @ '' must be one of types [''
                @ quoted [CHR ''a'', CHR 0x5C, CHR 0x5C, CHR ''b''] @ ''], but got ''
                @ quoted ''int''))
   \<and> \<not> sublist [CHR ''a'', CHR 0x5C, CHR ''b'']
         (quoted ''x'' @ '' must be one of types [''
                @ quoted [CHR ''a'', CHR 0x5C, CHR 0x5C, CHR ''b''] @ ''], but got ''
                @ quoted ''int'')"
  by code_simp

subsection \<open>Numeric range\<close>

lemma num_key_some: "\<not> is_nan n \<Longrightarrow> \<exists>r x. num_key n = Some (r, x)"
  by (cases n rule: num_key.cases) simp_all

lemma num_lt_not_le: "\<not> is_nan a \<Longrightarrow> \<not> is_nan b \<Longrightarrow> num_lt a b \<longleftrightarrow> \<not> num_le b a"
  using num_key_some [of a] num_key_some [of b] by (auto simp: num_lt_def num_le_def)

lemma num_le_refl: "\<not> is_nan a \<Longrightarrow> num_le a a"
  using num_key_some [of a] by (auto simp: num_le_def)

lemma numeric_assert_type:
  "num_of v = Some n \<Longrightarrow>
     assert_with_engine cfg pf fs site (TypeCheck (Some (TypeTuple [TInt, TFloat]))) v msg = Inr v"
  by (cases v) (simp_all add: assert_with_engine_def validate_with_engine_def py_isinstance_def)

lemma range_validate_within:
  assumes "num_of v = Some n" "\<not> is_nan n" "lo \<noteq> Some (NumFloat NaN)" "hi \<noteq> Some (NumFloat NaN)"
  shows "range_validate v lo hi = Inr (in_range n lo hi)"
proof -
  have lo: "\<not> is_nan l" if "lo = Some l" for l using that assms(3) by (cases l rule: is_nan.cases) auto
  have hi: "\<not> is_nan u" if "hi = Some u" for u using that assms(4) by (cases u rule: is_nan.cases) auto
  have b: "below_min v lo = Inr (case lo of None \<Rightarrow> False | Some l \<Rightarrow> \<not> num_le l n)"
    using assms(1,2) lo by (auto simp: below_min_def py_less_def num_lt_not_le split: option.splits)
  have a: "above_max v hi = Inr (case hi of None \<Rightarrow> False | Some u \<Rightarrow> \<not> num_le n u)"
    using assms(1,2) hi by (auto simp: above_max_def py_greater_def num_lt_not_le split: option.splits)
  show ?thesis
    unfolding range_validate_def b a in_range_def by (auto split: option.splits bool.splits)
qed

lemma range_message_defined:
  assumes "num_of v = Some n"
  shows "\<exists>m. range_get_error_message pf v nm lo hi = Inr m"
  using assms
  by (auto simp: range_get_error_message_def below_min_def above_max_def py_less_def py_greater_def
      split: option.splits sum.splits bool.splits)

text \<open>
  C5, as amended. On an engine that raises on failure, for every numeric value \<open>v\<close> (a
  bool, an int or a float) that is not NaN and bounds that are not NaN,
  \<open>assert_numeric(v, lo, hi)\<close> returns \<open>v\<close> if and only if \<open>lo <= v <= hi\<close>, an absent bound
  being unconstrained; otherwise it raises the configured error class. A value equal to
  both bounds passes, and so does every value when no bound is given.
\<close>

theorem assert_numeric_range:
  assumes "raise_on_failure cfg" and "num_of v = Some n" and "\<not> is_nan n"
    and "lo \<noteq> Some (NumFloat NaN)" and "hi \<noteq> Some (NumFloat NaN)"
  shows "(assert_numeric cfg pf fs site v lo hi msg = Inr v \<longleftrightarrow> in_range n lo hi)
         \<and> (\<not> in_range n lo hi \<longrightarrow>
              (\<exists>m. assert_numeric cfg pf fs site v lo hi msg
                      = Inl (Raised (custom_error_class cfg) m)))
         \<and> assert_numeric cfg pf fs site v (Some n) (Some n) msg = Inr v
         \<and> assert_numeric cfg pf fs site v None None msg = Inr v"
proof -
  have nn: "Some n \<noteq> Some (NumFloat NaN)" using assms(3) by auto
  have pass: "assert_numeric cfg pf fs site v lo' hi' msg = Inr v"
    if "in_range n lo' hi'" "lo' \<noteq> Some (NumFloat NaN)" "hi' \<noteq> Some (NumFloat NaN)" for lo' hi'
    using that range_validate_within [OF assms(2,3) that(2,3)]
    by (simp add: assert_numeric_def numeric_assert_type [OF assms(2)] validate_with_engine_def)
  obtain m where m: "range_get_error_message pf v (get_variable_name cfg site) lo hi = Inr m"
    using range_message_defined [OF assms(2)] by blast
  have nobounds: "in_range n None None" by (simp add: in_range_def)
  have fail: "assert_numeric cfg pf fs site v lo hi msg
                = Inl (Raised (custom_error_class cfg) (text_or msg m))"
    if "\<not> in_range n lo hi"
  proof -
    from that have "lo \<noteq> None \<or> hi \<noteq> None" by (auto simp: in_range_def)
    then show ?thesis
      using that assms(1) m range_validate_within [OF assms(2,3,4,5)]
      by (simp add: assert_numeric_def numeric_assert_type [OF assms(2)] validate_with_engine_def
          msg_or_def text_or_def split: option.splits)
  qed
  have bnd: "in_range n (Some n) (Some n)" using assms(3) by (simp add: in_range_def num_le_refl)
  have iff: "assert_numeric cfg pf fs site v lo hi msg = Inr v \<longleftrightarrow> in_range n lo hi"
  proof
    assume ok: "assert_numeric cfg pf fs site v lo hi msg = Inr v"
    show "in_range n lo hi"
    proof (rule ccontr)
      assume "\<not> in_range n lo hi"
      from fail [OF this] ok show False by simp
    qed
  next
    assume "in_range n lo hi"
    then show "assert_numeric cfg pf fs site v lo hi msg = Inr v" by (rule pass [OF _ assms(4,5)])
  qed
  from iff fail pass [OF bnd nn nn] pass [OF nobounds] show ?thesis by blast
qed

theorem assert_numeric_range_witness:
  "raise_on_failure default_config
   \<and> num_of (VInt 50) = Some (NumInt 50) \<and> \<not> is_nan (NumInt 50)
   \<and> in_range (NumInt 50) (Some (NumInt 0)) (Some (NumFloat (Fin 100)))
   \<and> assert_numeric default_config sample_platform sample_fs ''age'' (VInt 50)
         (Some (NumInt 0)) (Some (NumFloat (Fin 100))) None = Inr (VInt 50)
   \<and> assert_numeric default_config sample_platform sample_fs ''age'' (VInt 50)
         (Some (NumInt 50)) (Some (NumInt 50)) None = Inr (VInt 50)
   \<and> \<not> in_range (NumInt 50) (Some (NumInt 0)) (Some (NumInt 10))
   \<and> (\<exists>m. assert_numeric default_config sample_platform sample_fs ''age'' (VInt 50)
         (Some (NumInt 0)) (Some (NumInt 10)) None = Inl (Raised TypeAssertionError m))"
proof -
  have h1: "raise_on_failure default_config" by (simp add: default_config_def)
  have h6: "Some (NumInt 10) \<noteq> Some (NumFloat NaN)" by simp
  have c: "custom_error_class default_config = TypeAssertionError"
    by (simp add: default_config_def)
  have o: "\<not> in_range (NumInt 50) (Some (NumInt 0)) (Some (NumInt 10))"
    by (simp add: in_range_def num_le_def)
  have h2: "num_of (VInt 50) = Some (NumInt 50)" by simp
  have h3: "\<not> is_nan (NumInt 50)" by simp
  have h4: "Some (NumInt 0) \<noteq> Some (NumFloat NaN)" by simp
  have h5: "Some (NumFloat (Fin 100)) \<noteq> Some (NumFloat NaN)" by simp
  have r: "in_range (NumInt 50) (Some (NumInt 0)) (Some (NumFloat (Fin 100)))"
    by (simp add: in_range_def num_le_def)
  from assert_numeric_range [OF h1 h2 h3 h4 h5, of sample_platform sample_fs "''age''" None]
    assert_numeric_range [OF h1 h2 h3 h4 h6, of sample_platform sample_fs "''age''" None] r o h1
  show ?thesis unfolding c by simp
qed

text \<open>
  C5 as stated fails on NaN: every comparison with NaN is false, so
  \<open>assert_numeric(float('nan'), 0, 1)\<close> returns its argument although
  \<open>0 <= nan <= 1\<close> is false.
\<close>

theorem assert_numeric_nan_counterexample:
  "assert_numeric default_config sample_platform sample_fs ''x'' (VFloat NaN)
       (Some (NumInt 0)) (Some (NumInt 1)) None = Inr (VFloat NaN)
   \<and> \<not> in_range (NumFloat NaN) (Some (NumInt 0)) (Some (NumInt 1))"
  by (simp add: assert_numeric_def assert_with_engine_def validate_with_engine_def
      py_isinstance_def range_validate_def below_min_def above_max_def py_less_def
      py_greater_def num_lt_def num_le_def in_range_def)

subsection \<open>Exact length\<close>

lemma length_validate_sized:
  "py_len v = Some n \<Longrightarrow>
     length_validate v min_len max_len exact_len
       = ((case exact_len of None \<Rightarrow> True | Some k \<Rightarrow> int n = k)
          \<and> (case min_len of None \<Rightarrow> True | Some m \<Rightarrow> m \<le> int n)
          \<and> (case max_len of None \<Rightarrow> True | Some m \<Rightarrow> int n \<le> m))"
  by (auto simp: length_validate_def differs_def shorter_def longer_def split: option.splits)

lemma list_is_sequence:
  "assert_with_engine cfg pf fs site (TypeCheck (Some (TypeTuple [TList, TTuple]))) (VList xs) msg
     = Inr (VList xs)"
  by (simp add: assert_with_engine_def validate_with_engine_def py_isinstance_def)

text \<open>
  C4, as amended. For every sized value \<open>v\<close> and integer \<open>k\<close>, the length check with the
  exact length \<open>k\<close> passes if and only if \<open>len(v) == k\<close> and every \<open>min_len\<close> and
  \<open>max_len\<close> given with it holds as well: the bounds are checked, not ignored. With no
  bound given it passes if and only if \<open>len(v) == k\<close>, in the validator, in
  \<open>_validate_with_engine\<close> and in \<open>assert_sequence\<close> on an engine that raises on failure.
\<close>

theorem length_exact_and_bounds:
  assumes "py_len v = Some n"
  shows "length_validate v min_len max_len (Some k)
           = (int n = k
              \<and> (case min_len of None \<Rightarrow> True | Some m \<Rightarrow> m \<le> int n)
              \<and> (case max_len of None \<Rightarrow> True | Some m \<Rightarrow> int n \<le> m))
         \<and> length_validate v None None (Some k) = (int n = k)
         \<and> (raise_on_failure cfg \<longrightarrow>
              (validate_with_engine cfg pf fs site (LengthCheck None None (Some k)) v msg = Inr True
                 \<longleftrightarrow> int n = k))
         \<and> (raise_on_failure cfg \<longrightarrow>
              (assert_sequence cfg pf fs site (VList xs) None None (Some k) msg = Inr (VList xs)
                 \<longleftrightarrow> int (length xs) = k))"
proof -
  have a: "length_validate v min_len max_len (Some k)
           = (int n = k
              \<and> (case min_len of None \<Rightarrow> True | Some m \<Rightarrow> m \<le> int n)
              \<and> (case max_len of None \<Rightarrow> True | Some m \<Rightarrow> int n \<le> m))"
    using length_validate_sized [OF assms] by simp
  have b: "length_validate v None None (Some k) = (int n = k)"
    using length_validate_sized [OF assms] by simp
  have c: "validate_with_engine cfg pf fs site (LengthCheck None None (Some k)) v msg = Inr True
             \<longleftrightarrow> int n = k" if "raise_on_failure cfg"
    using that b
    by (auto simp: validate_with_engine_def msg_or_def split: option.splits sum.splits)
  have xs: "length_validate (VList xs) None None (Some k) = (int (length xs) = k)"
    using length_validate_sized [of "VList xs" "length xs"] by simp
  have d: "assert_sequence cfg pf fs site (VList xs) None None (Some k) msg = Inr (VList xs)
             \<longleftrightarrow> int (length xs) = k" if "raise_on_failure cfg"
    using that xs
    by (auto simp: assert_sequence_def list_is_sequence validate_with_engine_def msg_or_def
        split: option.splits sum.splits)
  from a b c d show ?thesis by blast
qed

text \<open>
  C4 as stated fails: a list of length 3 checked with the exact length 3 and
  \<open>min_len=5\<close> is rejected by the validator, and \<open>assert_sequence\<close> raises on it.
\<close>

theorem length_exact_bounds_counterexample:
  "py_len (VList [VInt 1, VInt 2, VInt 3]) = Some 3
   \<and> \<not> length_validate (VList [VInt 1, VInt 2, VInt 3]) (Some 5) None (Some 3)
   \<and> assert_sequence default_config sample_platform sample_fs ''xs''
        (VList [VInt 1, VInt 2, VInt 3]) (Some 5) None (Some 3) None
       = Inl (Raised TypeAssertionError (quoted ''xs'' @ '' must have length >= 5, but got 3''))"
  by code_simp

theorem length_exact_and_bounds_witness:
  "py_len (VStr ''abc'') = Some 3
   \<and> length_validate (VStr ''abc'') None None (Some 3)
   \<and> \<not> length_validate (VStr ''abc'') None None (Some 4)
   \<and> \<not> length_validate (VStr ''abc'') None (Some 2) (Some 3)
   \<and> raise_on_failure default_config
   \<and> validate_with_engine default_config sample_platform sample_fs ''xs''
         (LengthCheck None None (Some 3)) (VStr ''abc'') None = Inr True
   \<and> assert_sequence default_config sample_platform sample_fs ''xs'' (VList [VNone]) None None
         (Some 1) None = Inr (VList [VNone])"
proof -
  have h: "py_len (VStr ''abc'') = Some 3" by simp
  have r: "raise_on_failure default_config" by (simp add: default_config_def)
  from length_exact_and_bounds [OF h, of None None 3 default_config sample_platform sample_fs "''xs''" None "[VNone]"]
    length_exact_and_bounds [OF h, of None None 4 default_config sample_platform sample_fs "''xs''" None "[VNone]"]
    length_exact_and_bounds [OF h, of None "Some 2" 3 default_config sample_platform sample_fs "''xs''" None "[VNone]"]
    length_exact_and_bounds [OF h, of None None 1 default_config sample_platform sample_fs "''xs''" None "[VNone]"]
    h r
  show ?thesis by simp
qed

subsection \<open>Required keys\<close>

lemma dict_missing_keys:
  "missing_keys (VDict kvs) ks = Inr (filter (\<lambda>k. k \<notin> set (map fst kvs)) ks)"
  by (induction ks) simp_all

lemma dict_is_mapping:
  "assert_with_engine cfg pf fs site (TypeCheck (Some (OneType TDict))) (VDict kvs) msg
     = Inr (VDict kvs)"
  by (simp add: assert_with_engine_def validate_with_engine_def py_isinstance_def)

text \<open>
  C6. For every dict and required keys (one key or a list), under every configuration,
  \<open>assert_mapping\<close> raises exactly when some required key is absent from the dict. The
  keys missing are the required keys that are absent, in the order given; with no custom
  message the text names the one missing key in the singular form, or lists all of them
  in that order. Without required keys a dict is returned as it is.
\<close>

theorem assert_mapping_missing_keys:
  "assert_mapping cfg pf fs site (VDict kvs) (Some rk) msg =
     (case filter (\<lambda>k. k \<notin> set (map fst kvs)) (keys_to_check rk) of
        [] \<Rightarrow> Inr (VDict kvs)
      | [k] \<Rightarrow>
          Inl (Raised (custom_error_class cfg)
                 (text_or msg (quoted (get_variable_name cfg site)
                                 @ '' missing required key: '' @ quoted k)))
      | k # k' # rest \<Rightarrow>
          Inl (Raised (custom_error_class cfg)
                 (text_or msg (quoted (get_variable_name cfg site)
                                 @ '' missing required keys: ''
                                 @ py_repr_str_list (k # k' # rest))))) 
   \<and> ((\<exists>e. assert_mapping cfg pf fs site (VDict kvs) (Some rk) msg = Inl e)
        \<longleftrightarrow> (\<exists>k\<in>set (keys_to_check rk). k \<notin> set (map fst kvs)))
   \<and> assert_mapping cfg pf fs site (VDict kvs) None msg = Inr (VDict kvs)"
proof -
  let ?missing = "filter (\<lambda>k. k \<notin> set (map fst kvs)) (keys_to_check rk)"
  have e: "(?missing = []) = (\<not> (\<exists>k\<in>set (keys_to_check rk). k \<notin> set (map fst kvs)))"
    by (auto simp: filter_empty_conv)
  have m: "assert_mapping cfg pf fs site (VDict kvs) (Some rk) msg =
     (if ?missing \<noteq> [] then
        Inl (Raised (custom_error_class cfg)
               (text_or msg (missing_message (get_variable_name cfg site) ?missing)))
      else Inr (VDict kvs))"
    by (simp add: assert_mapping_def dict_is_mapping dict_missing_keys Let_def)
  have 1: "assert_mapping cfg pf fs site (VDict kvs) (Some rk) msg =
     (case ?missing of
        [] \<Rightarrow> Inr (VDict kvs)
      | [k] \<Rightarrow>
          Inl (Raised (custom_error_class cfg)
                 (text_or msg (quoted (get_variable_name cfg site)
                                 @ '' missing required key: '' @ quoted k)))
      | k # k' # rest \<Rightarrow>
          Inl (Raised (custom_error_class cfg)
                 (text_or msg (quoted (get_variable_name cfg site)
                                 @ '' missing required keys: ''
                                 @ py_repr_str_list (k # k' # rest)))))"
    unfolding m by (simp split: list.splits)
  have 2: "(\<exists>e. assert_mapping cfg pf fs site (VDict kvs) (Some rk) msg = Inl e)
        \<longleftrightarrow> (\<exists>k\<in>set (keys_to_check rk). k \<notin> set (map fst kvs))"
    unfolding m using e by auto
  have 3: "assert_mapping cfg pf fs site (VDict kvs) None msg = Inr (VDict kvs)"
    by (simp add: assert_mapping_def dict_is_mapping)
  from 1 2 3 show ?thesis by blast
qed

theorem assert_mapping_missing_keys_witness:
  "assert_mapping default_config sample_platform sample_fs ''cfg'' (VDict [(''a'', VInt 1)])
       (Some (KeyList [''a'', ''b''])) None
     = Inl (Raised TypeAssertionError (quoted ''cfg'' @ '' missing required key: '' @ quoted ''b''))
   \<and> assert_mapping default_config sample_platform sample_fs ''cfg'' (VDict [])
       (Some (KeyList [''a'', ''b''])) None
     = Inl (Raised TypeAssertionError (quoted ''cfg'' @ '' missing required keys: ['a', 'b']''))
   \<and> assert_mapping default_config sample_platform sample_fs ''cfg''
       (VDict [(''a'', VInt 1), (''b'', VNone)]) (Some (KeyList [''a'', ''b''])) None
     = Inr (VDict [(''a'', VInt 1), (''b'', VNone)])"
proof -
  note t = assert_mapping_missing_keys [where cfg = default_config and pf = sample_platform and fs = sample_fs
      and site = "''cfg''" and rk = "KeyList [''a'', ''b'']" and msg = None]
  have r: "py_repr_str_list [''a'', ''b''] = ''['a', 'b']''" by code_simp
  from t [where kvs = "[(''a'', VInt 1)]", THEN conjunct1] t [where kvs = "[]", THEN conjunct1]
    t [where kvs = "[(''a'', VInt 1), (''b'', VNone)]", THEN conjunct1] r
  show ?thesis by (simp add: default_config_def text_or_def get_variable_name_def)
qed

subsection \<open>Paths\<close>

lemma blank_str_rejected:
  "list_all py_isspace s \<Longrightarrow>
     assert_path cfg pf fs site (VStr s) must_exist must_be_file must_be_dir create_parents msg
       = (Inl (Raised (custom_error_class cfg)
                 (text_or msg (quoted (get_variable_name cfg site) @ '' cannot be an empty path''))),
          fs)"
  by (simp add: assert_path_def Let_def)

lemma assert_path_checks:
  assumes "assert_path_obj pf v = Inr p" "\<not> empty_text v"
  shows "assert_path cfg pf fs site v must_exist must_be_file must_be_dir False msg
           = (case validate_with_engine cfg pf fs site
                     (PathCheck must_exist must_be_file must_be_dir) (VPath p) msg of
                Inl e \<Rightarrow> (Inl e, fs)
              | Inr is_valid \<Rightarrow> (Inr (VPath p), fs))"
  using assms by (simp add: assert_path_def Let_def create_parent_dirs_def)

lemma dir_validates:
  "is_dir fs p \<Longrightarrow> must_exist \<noteq> Some False \<Longrightarrow>
     path_validate pf fs (VPath p) must_exist False True"
  by (auto simp: path_validate_def is_dir_def path_exists_def is_file_def)

lemma dir_is_no_file:
  "is_dir fs p \<Longrightarrow> \<not> path_validate pf fs (VPath p) must_exist True must_be_dir"
  by (auto simp: path_validate_def is_dir_def path_exists_def is_file_def)

lemma existing_dir_passes:
  assumes "assert_path_obj pf v = Inr p" "\<not> empty_text v" "is_dir fs p" "must_exist \<noteq> Some False"
  shows "assert_path cfg pf fs site v must_exist False True False msg = (Inr (VPath p), fs)"
  using dir_validates [OF assms(3,4)]
  by (simp add: assert_path_checks [OF assms(1,2)] validate_with_engine_def)

lemma existing_dir_not_file_raises:
  assumes "assert_path_obj pf v = Inr p" "\<not> empty_text v" "is_dir fs p" "raise_on_failure cfg"
  shows "assert_path cfg pf fs site v None True False False msg
           = (Inl (Raised (custom_error_class cfg)
                     (text_or msg (quoted (get_variable_name cfg site) @ '' must be a file, but ''
                        @ quoted p @ '' is not a file''))), fs)"
  using dir_is_no_file [OF assms(3), of pf None False] assms(3,4)
  by (simp add: assert_path_checks [OF assms(1,2)] validate_with_engine_def msg_or_def text_or_def
      path_get_error_message_def is_dir_def path_exists_def is_file_def split: option.splits)

lemma existing_dir_not_file_returns:
  assumes "assert_path_obj pf v = Inr p" "\<not> empty_text v" "\<not> raise_on_failure cfg"
  shows "assert_path cfg pf fs site v must_exist must_be_file must_be_dir False msg
           = (Inr (VPath p), fs)"
  using assms(3)
  by (simp add: assert_path_checks [OF assms(1,2)] validate_with_engine_def)

text \<open>
  C7, as amended. Under every configuration and for every \<open>must_exist\<close>, \<open>must_be_file\<close>,
  \<open>must_be_dir\<close> and \<open>create_parents\<close>, \<open>assert_path\<close> on an empty or whitespace-only
  string raises the configured error class with the empty-path message (or the custom
  message), which is not the message of a conversion failure, and leaves the file system
  as it is; the path validator rejects such a string as well. For an existing directory,
  given as a string that is not blank or as a path object,
  \<open>assert_path(d, must_be_dir=True)\<close> returns the path on every engine; the path validator
  rejects it under \<open>must_be_file=True\<close>, and \<open>assert_path(d, must_be_file=True)\<close> raises
  on an engine that raises on failure and returns the path on one that does not.
\<close>

theorem assert_path_empty_and_directory:
  "(list_all py_isspace s \<longrightarrow>
      \<not> path_validate pf fs (VStr s) must_exist must_be_file must_be_dir
      \<and> assert_path cfg pf fs site (VStr s) must_exist must_be_file must_be_dir create_parents msg
        = (Inl (Raised (custom_error_class cfg)
                  (text_or msg (quoted (get_variable_name cfg site)
                                  @ '' cannot be an empty path''))), fs))
   \<and> quoted nm @ '' cannot be an empty path'' \<noteq> quoted nm @ '' cannot be converted to a Path: '' @ e
   \<and> (\<not> list_all py_isspace d \<and> is_dir fs (path_text pf d) \<longrightarrow>
        assert_path cfg pf fs site (VStr d) None False True False msg
          = (Inr (VPath (path_text pf d)), fs)
        \<and> \<not> path_validate pf fs (VPath (path_text pf d)) None True False
        \<and> (raise_on_failure cfg \<longrightarrow>
             assert_path cfg pf fs site (VStr d) None True False False msg
               = (Inl (Raised (custom_error_class cfg)
                    (text_or msg (quoted (get_variable_name cfg site) @ '' must be a file, but ''
                       @ quoted (path_text pf d) @ '' is not a file''))), fs))
        \<and> (\<not> raise_on_failure cfg \<longrightarrow>
             assert_path cfg pf fs site (VStr d) None True False False msg
               = (Inr (VPath (path_text pf d)), fs)))
   \<and> (is_dir fs p \<longrightarrow>
        assert_path cfg pf fs site (VPath p) None False True False msg = (Inr (VPath p), fs)
        \<and> \<not> path_validate pf fs (VPath p) None True False
        \<and> (raise_on_failure cfg \<longrightarrow>
             assert_path cfg pf fs site (VPath p) None True False False msg
               = (Inl (Raised (custom_error_class cfg)
                    (text_or msg (quoted (get_variable_name cfg site) @ '' must be a file, but ''
                       @ quoted p @ '' is not a file''))), fs))
        \<and> (\<not> raise_on_failure cfg \<longrightarrow>
             assert_path cfg pf fs site (VPath p) None True False False msg
               = (Inr (VPath p), fs)))"
proof -
  have 1: "list_all py_isspace s \<longrightarrow>
      \<not> path_validate pf fs (VStr s) must_exist must_be_file must_be_dir
      \<and> assert_path cfg pf fs site (VStr s) must_exist must_be_file must_be_dir create_parents msg
        = (Inl (Raised (custom_error_class cfg)
                  (text_or msg (quoted (get_variable_name cfg site)
                                  @ '' cannot be an empty path''))), fs)"
    using blank_str_rejected by (simp add: path_validate_def)
  have 2: "quoted nm @ '' cannot be an empty path''
             \<noteq> quoted nm @ '' cannot be converted to a Path: '' @ e"
    by simp
  have dir: "assert_path cfg pf fs site v None False True False msg = (Inr (VPath q), fs)
        \<and> \<not> path_validate pf fs (VPath q) None True False
        \<and> (raise_on_failure cfg \<longrightarrow>
             assert_path cfg pf fs site v None True False False msg
               = (Inl (Raised (custom_error_class cfg)
                    (text_or msg (quoted (get_variable_name cfg site) @ '' must be a file, but ''
                       @ quoted q @ '' is not a file''))), fs))
        \<and> (\<not> raise_on_failure cfg \<longrightarrow>
             assert_path cfg pf fs site v None True False False msg = (Inr (VPath q), fs))"
    if "assert_path_obj pf v = Inr q" "\<not> empty_text v" "is_dir fs q" for v q
    using existing_dir_passes [OF that, of None cfg site msg]
      dir_is_no_file [OF that(3), of pf None False]
      existing_dir_not_file_raises [OF that, of cfg site msg]
      existing_dir_not_file_returns [OF that(1,2), of cfg fs site None True False msg]
    by simp
  from 1 2 dir [of "VStr d" "path_text pf d"] dir [of "VPath p" p] show ?thesis by simp
qed

theorem assert_path_empty_and_directory_witness:
  "list_all py_isspace ''  ''
   \<and> assert_path default_config sample_platform sample_fs ''p'' (VStr []) (Some False) False
        False False None
      = (Inl (Raised TypeAssertionError (quoted ''p'' @ '' cannot be an empty path'')), sample_fs)
   \<and> assert_path default_config sample_platform sample_fs ''p'' (VStr ''  '') (Some True) False
        False False None
      = (Inl (Raised TypeAssertionError (quoted ''p'' @ '' cannot be an empty path'')), sample_fs)
   \<and> raise_on_failure default_config \<and> is_dir sample_fs ''/tmp''
   \<and> assert_path default_config sample_platform sample_fs ''p'' (VStr ''/tmp'') None False True
        False None
      = (Inr (VPath ''/tmp''), sample_fs)
   \<and> assert_path default_config sample_platform sample_fs ''p'' (VStr ''/tmp'') None True False
        False None
      = (Inl (Raised TypeAssertionError
                (quoted ''p'' @ '' must be a file, but '' @ quoted ''/tmp'' @ '' is not a file'')),
         sample_fs)
   \<and> assert_path default_config sample_platform sample_fs ''p'' (VPath ''/tmp'') None False True
        False None
      = (Inr (VPath ''/tmp''), sample_fs)
   \<and> \<not> raise_on_failure create_lenient_engine
   \<and> assert_path create_lenient_engine sample_platform sample_fs ''p'' (VPath ''/tmp'') None True
        False False None
      = (Inr (VPath ''/tmp''), sample_fs)"
proof -
  have b0: "list_all py_isspace []" by simp
  have b2: "list_all py_isspace ''  ''" by (simp add: py_isspace_def)
  have r: "raise_on_failure default_config" by (simp add: default_config_def)
  have l: "\<not> raise_on_failure create_lenient_engine"
    by (simp add: create_lenient_engine_def create_validation_engine_def engine_init_def)
  have pt: "path_text sample_platform ''/tmp'' = ''/tmp''" by (simp add: sample_platform_def)
  have d: "is_dir sample_fs ''/tmp''" by (simp add: is_dir_def sample_fs_def)
  have nb: "\<not> list_all py_isspace ''/tmp''" by (simp add: py_isspace_def)
  have n: "get_variable_name default_config ''p'' = ''p''"
    by (simp add: get_variable_name_def default_config_def)
  have c: "custom_error_class default_config = TypeAssertionError"
    by (simp add: default_config_def)
  note t = assert_path_empty_and_directory [where pf = sample_platform and fs = sample_fs
      and site = "''p''" and msg = None and d = "''/tmp''" and p = "''/tmp''"]
  from t [where cfg = default_config and s = "[]" and must_exist = "Some False"
            and must_be_file = False and must_be_dir = False and create_parents = False]
    t [where cfg = default_config and s = "''  ''" and must_exist = "Some True"
            and must_be_file = False and must_be_dir = False and create_parents = False]
    t [where cfg = create_lenient_engine]
    b0 b2 r l d nb
  show ?thesis unfolding pt n c by (simp add: text_or_def)
qed

text \<open>
  C7 as stated fails in two places. On the engine of \<open>create_lenient_engine\<close>,
  \<open>assert_path\<close> on the existing directory \<open>/tmp\<close> with \<open>must_be_file=True\<close> returns the
  path. Where a directory is named by a single space, \<open>assert_path\<close> on that name with
  \<open>must_be_dir=True\<close> raises the empty-path failure.
\<close>

theorem assert_path_directory_counterexample:
  "is_dir sample_fs ''/tmp''
   \<and> assert_path create_lenient_engine sample_platform sample_fs ''p'' (VStr ''/tmp'') None True
        False False None
      = (Inr (VPath ''/tmp''), sample_fs)
   \<and> is_dir (\<lambda>p. if p = '' '' then Some Dir else None) '' ''
   \<and> assert_path default_config sample_platform (\<lambda>p. if p = '' '' then Some Dir else None)
        ''p'' (VStr '' '') None False True False None
      = (Inl (Raised TypeAssertionError (quoted ''p'' @ '' cannot be an empty path'')),
         (\<lambda>p. if p = '' '' then Some Dir else None))"
  by (simp add: is_dir_def sample_fs_def sample_platform_def assert_path_def Let_def
      create_lenient_engine_def create_validation_engine_def engine_init_def default_config_def
      create_parent_dirs_def validate_with_engine_def py_isspace_def text_or_def
      get_variable_name_def)

subsection \<open>The lenient engine\<close>

text \<open>
  C2 fails on the code. The engine of \<open>create_lenient_engine\<close> has
  \<open>raise_on_failure=False\<close>, yet \<open>assert_not_none(None)\<close>, \<open>assert_path("")\<close> and
  \<open>assert_path\<close> on a value that is no path raise the configured error class on it:
  these three checks never read \<open>raise_on_failure\<close>.
\<close>

theorem lenient_engine_still_raises:
  "\<not> raise_on_failure create_lenient_engine
   \<and> \<not> strict_mode create_lenient_engine
   \<and> assert_not_none create_lenient_engine site VNone None
       = Inl (Raised TypeAssertionError (quoted site @ '' must not be None''))
   \<and> fst (assert_path create_lenient_engine pf fs site (VStr '''') must_exist must_be_file
            must_be_dir create_parents None)
       = Inl (Raised TypeAssertionError (quoted site @ '' cannot be an empty path''))
   \<and> fst (assert_path create_lenient_engine pf fs site (VInt 5) must_exist must_be_file
            must_be_dir create_parents None)
       = Inl (Raised TypeAssertionError
               (quoted site @ '' cannot be converted to a Path: '' @ path_type_error pf (VInt 5)))"
  by (simp add: create_lenient_engine_def create_validation_engine_def engine_init_def
      assert_not_none_def assert_path_def text_or_def get_variable_name_def Let_def)

end
